theory Spec2Isabelle
  imports Complex_Main "HOL-Library.Sublist"
begin

section \<open>JavaScript values and errors\<close>

text \<open>
  The values that reach the functions below. Numbers keep the four IEEE values that
  \<^verbatim>\<open>Object.is\<close> tells apart from every finite number; a finite number is an exact real
  (rounding is not modelled). An object is its list of own properties. A handle is an
  instance of \<^verbatim>\<open>js.JSHandle\<close> (\<open>isElement\<close> when it is an \<^verbatim>\<open>ElementHandle\<close>), with the
  execution context that created it, its \<^verbatim>\<open>_disposed\<close> flag and the remote-object
  descriptor that \<^verbatim>\<open>markJSHandle\<close> attached to it. Symbols and objects with accessors or a
  \<^verbatim>\<open>toString\<close> of their own are outside the model.
\<close>

datatype jsnumber = Num real | NegativeZero | Infinity | NegativeInfinity | NaN

datatype jsval =
    JUndefined
  | JNull
  | JBoolean bool
  | JNumber jsnumber
  | JBigInt int
  | JString string
  | JFunction string
  | JObject "(string \<times> jsval) list"
  | JHandle (isElement: bool) (handleContext: nat) (disposed: bool) (toRemoteObject: remote_object)
and remote_object =
    RemoteObject (ro_type: string) (ro_subtype: "string option") (ro_objectId: "string option")
                 (ro_value: jsval) (ro_unserializableValue: "string option")

text \<open>The \<^verbatim>\<open>typeof\<close> operator.\<close>

fun typeof :: "jsval \<Rightarrow> string" where
  "typeof JUndefined = ''undefined''"
| "typeof JNull = ''object''"
| "typeof (JBoolean b) = ''boolean''"
| "typeof (JNumber n) = ''number''"
| "typeof (JBigInt i) = ''bigint''"
| "typeof (JString s) = ''string''"
| "typeof (JFunction f) = ''function''"
| "typeof (JObject props) = ''object''"
| "typeof (JHandle e c d r) = ''object''"

text \<open>
  Thrown values: \<^verbatim>\<open>new Error(message)\<close>, and the engine's \<^verbatim>\<open>TypeError\<close> for a property
  read on \<^verbatim>\<open>null\<close>.
\<close>

datatype js_error = Error string | TypeError string

fun message :: "js_error \<Rightarrow> string" where
  "message (Error m) = m"
| "message (TypeError m) = m"

text \<open>\<^verbatim>\<open>String.prototype.includes\<close>, \<^verbatim>\<open>endsWith\<close> and \<^verbatim>\<open>startsWith\<close>.\<close>

definition stringIncludes :: "string \<Rightarrow> string \<Rightarrow> bool" where
  "stringIncludes s part = sublist part s"

definition endsWith :: "string \<Rightarrow> string \<Rightarrow> bool" where
  "endsWith s part = suffix part s"

definition startsWith :: "string \<Rightarrow> string \<Rightarrow> bool" where
  "startsWith s part = prefix part s"

text \<open>
  \<^verbatim>\<open>BigInt.prototype.toString()\<close>: the decimal digits, most significant first, with a
  leading minus sign for a negative value.
\<close>

definition digitChar :: "nat \<Rightarrow> char" where
  "digitChar d = ''0123456789'' ! d"

function natToString :: "nat \<Rightarrow> string" where
  "natToString n = (if n < 10 then [digitChar n] else natToString (n div 10) @ [digitChar (n mod 10)])"
  by pat_completeness auto
termination
  by (relation "measure id") auto

declare natToString.simps [simp del]

definition bigintToString :: "int \<Rightarrow> string" where
  "bigintToString i = (if i < 0 then ''-'' @ natToString (nat (- i)) else natToString (nat i))"

text \<open>Whether an optional string property is truthy: present and not empty.\<close>

fun truthy :: "string option \<Rightarrow> bool" where
  "truthy None = False"
| "truthy (Some s) = (s \<noteq> [])"

section \<open>The execution context delegate (src/unnamed/part_000)\<close>

text \<open>
  A \<^verbatim>\<open>Protocol.Runtime.CallArgument\<close> as \<^verbatim>\<open>convertArgument\<close> builds it: every
  \<^verbatim>\<open>return\<close> of that function sets exactly one of the three properties.
\<close>

datatype call_argument = UnserializableValue string | Value jsval | ObjectId string

text \<open>
  \<^verbatim>\<open>convertArgument\<close>, the equations in the order of the source's tests. \<open>context\<close> is
  the execution context of the enclosing \<^verbatim>\<open>evaluate\<close> call; \<^verbatim>\<open>Object.is\<close> against the
  four number literals is equality of \<open>jsnumber\<close>, which keeps \<open>NegativeZero\<close> apart
  from \<open>Num 0\<close>.
\<close>

fun convertArgument :: "nat \<Rightarrow> jsval \<Rightarrow> js_error + call_argument" where
  "convertArgument context (JBigInt i) = Inr (UnserializableValue (bigintToString i @ ''n''))"
| "convertArgument context (JNumber NegativeZero) = Inr (UnserializableValue ''-0'')"
| "convertArgument context (JNumber Infinity) = Inr (UnserializableValue ''Infinity'')"
| "convertArgument context (JNumber NegativeInfinity) = Inr (UnserializableValue ''-Infinity'')"
| "convertArgument context (JNumber NaN) = Inr (UnserializableValue ''NaN'')"
| "convertArgument context (JHandle e c d remoteObject) =
     (if c \<noteq> context then
        Inl (Error ''JSHandles can be evaluated only in the context they were created!'')
      else if d then Inl (Error ''JSHandle is disposed!'')
      else if truthy (ro_unserializableValue remoteObject) then
        Inr (UnserializableValue (the (ro_unserializableValue remoteObject)))
      else if \<not> truthy (ro_objectId remoteObject) then Inr (Value (ro_value remoteObject))
      else Inr (ObjectId (the (ro_objectId remoteObject))))"
| "convertArgument context arg = Inr (Value arg)"

text \<open>\<^verbatim>\<open>args.map(convertArgument)\<close>: the first argument that throws ends the call.\<close>

fun convertArguments :: "nat \<Rightarrow> jsval list \<Rightarrow> js_error + call_argument list" where
  "convertArguments context [] = Inr []"
| "convertArguments context (arg # args) =
     (case convertArgument context arg of
        Inl e \<Rightarrow> Inl e
      | Inr a \<Rightarrow> (case convertArguments context args of Inl e \<Rightarrow> Inl e | Inr as \<Rightarrow> Inr (a # as)))"

text \<open>
  \<^verbatim>\<open>Protocol.Runtime.evaluateReturnValue\<close>. The exception details are kept as the text
  that \<^verbatim>\<open>getExceptionMessage\<close> (protocolHelper, outside these sources) makes of them;
  \<open>ret_result\<close> and \<open>ret_exceptionDetails\<close> are its \<^verbatim>\<open>result\<close> and \<^verbatim>\<open>exceptionDetails\<close>.
\<close>

record evaluate_return =
  ret_result :: remote_object
  ret_exceptionDetails :: "string option"

text \<open>\<^verbatim>\<open>rewriteError\<close>: \<open>Inr\<close> is a returned value, \<open>Inl\<close> a thrown error.\<close>

definition rewriteError :: "js_error \<Rightarrow> js_error + evaluate_return" where
  \<open>rewriteError error =
     (if stringIncludes (message error) ''Object reference chain is too long'' then
        Inr \<lparr>ret_result = RemoteObject ''undefined'' None None JUndefined None, ret_exceptionDetails = None\<rparr>
      else if stringIncludes (message error) ''Object couldn't be returned by value'' then
        Inr \<lparr>ret_result = RemoteObject ''undefined'' None None JUndefined None, ret_exceptionDetails = None\<rparr>
      else if endsWith (message error) ''Cannot find context with specified id''
              \<or> endsWith (message error) ''Inspected target navigated or closed'' then
        Inl (Error ''Execution context was destroyed, most likely because of a navigation.'')
      else Inl error)\<close>

text \<open>
  The part of \<^verbatim>\<open>evaluate\<close> that settles the function text (\<^verbatim>\<open>let functionText = ...\<close> up
  to the end of the outer \<^verbatim>\<open>try\<close>). \<open>parses text\<close> says that \<^verbatim>\<open>new Function(text)\<close>
  does not throw; the engine's parser is a parameter. The first component of the result
  lists the texts handed to \<^verbatim>\<open>new Function\<close>, in order.
\<close>

definition parseFunctionText :: "(string \<Rightarrow> bool) \<Rightarrow> string \<Rightarrow> string list \<times> (js_error + string)" where
  "parseFunctionText parses functionText =
     (if parses (''('' @ functionText @ '')'') then ([''('' @ functionText @ '')''], Inr functionText)
      else
        (let functionText' =
               (if startsWith functionText ''async '' then
                  ''async function '' @ drop (length ''async '') functionText
                else ''function '' @ functionText)
         in if parses (''('' @ functionText' @ '')'') then
              ([''('' @ functionText @ '')'', ''('' @ functionText' @ '')''], Inr functionText')
            else
              ([''('' @ functionText @ '')'', ''('' @ functionText' @ '')''],
               Inl (Error ''Passed function is not well-serializable!''))))"

text \<open>
  The parameters of \<^verbatim>\<open>Runtime.callFunctionOn\<close> that vary (\<^verbatim>\<open>awaitPromise\<close> and
  \<^verbatim>\<open>userGesture\<close> are always \<^verbatim>\<open>true\<close>), and the three ways \<^verbatim>\<open>this._client.send\<close> can end:
  it throws while building the request, or its promise rejects, or its promise resolves.
\<close>

record call_request =
  functionDeclaration :: string
  executionContextId :: nat
  arguments :: "call_argument list"
  returnByValue :: bool

datatype 'a sent = Throws js_error | Rejects js_error | Resolves 'a

definition EVALUATION_SCRIPT_URL :: string where
  "EVALUATION_SCRIPT_URL = ''__playwright_evaluation_script__''"

text \<open>
  \<^verbatim>\<open>evaluate\<close> for a \<^verbatim>\<open>pageFunction\<close> that is a function, with \<open>functionText\<close> its
  \<^verbatim>\<open>toString()\<close>. The result is the remote object that the source then hands to
  \<^verbatim>\<open>valueFromRemoteObject\<close> or \<^verbatim>\<open>createJSHandle\<close>.
\<close>

definition evaluateFunction ::
    "(string \<Rightarrow> bool) \<Rightarrow> (call_request \<Rightarrow> evaluate_return sent) \<Rightarrow> nat \<Rightarrow> nat \<Rightarrow> bool \<Rightarrow> string
       \<Rightarrow> jsval list \<Rightarrow> js_error + remote_object" where
  "evaluateFunction parses send context contextId byValue functionText args =
     (let suffix = ''//# sourceURL='' @ EVALUATION_SCRIPT_URL
      in case snd (parseFunctionText parses functionText) of
           Inl e \<Rightarrow> Inl e
         | Inr text \<Rightarrow>
             (case convertArguments context args of
                Inl e \<Rightarrow> Inl e
              | Inr cargs \<Rightarrow>
                  (case send \<lparr>functionDeclaration = text @ [CHR 0x0A] @ suffix @ [CHR 0x0A],
                              executionContextId = contextId,
                              arguments = cargs,
                              returnByValue = byValue\<rparr> of
                     Throws err \<Rightarrow>
                       (case err of
                          TypeError m \<Rightarrow>
                            if startsWith m ''Converting circular structure to JSON'' then
                              Inl (TypeError (m @ '' Are you passing a nested JSHandle?''))
                            else Inl err
                        | Error m \<Rightarrow> Inl err)
                   | Rejects err \<Rightarrow>
                       (case rewriteError err of
                          Inl e \<Rightarrow> Inl e
                        | Inr r \<Rightarrow>
                            (case ret_exceptionDetails r of
                               Some d \<Rightarrow> Inl (Error (''Evaluation failed: '' @ d))
                             | None \<Rightarrow> Inr (ret_result r)))
                   | Resolves r \<Rightarrow>
                       (case ret_exceptionDetails r of
                          Some d \<Rightarrow> Inl (Error (''Evaluation failed: '' @ d))
                        | None \<Rightarrow> Inr (ret_result r)))))"

text \<open>
  \<^verbatim>\<open>evaluate\<close> for a \<^verbatim>\<open>pageFunction\<close> that is a string. \<open>hasSourceUrl\<close> is
  \<^verbatim>\<open>SOURCE_URL_REGEX.test\<close>; the engine's regular expressions are a parameter. The request
  is \<^verbatim>\<open>Runtime.evaluate\<close>, sent outside any \<^verbatim>\<open>try\<close>.
\<close>

record evaluate_request =
  eval_expression :: string
  eval_contextId :: nat
  eval_returnByValue :: bool

definition evaluateExpression ::
    "(string \<Rightarrow> bool) \<Rightarrow> (evaluate_request \<Rightarrow> evaluate_return sent) \<Rightarrow> nat \<Rightarrow> bool \<Rightarrow> string
       \<Rightarrow> js_error + remote_object" where
  "evaluateExpression hasSourceUrl send contextId byValue expression =
     (let suffix = ''//# sourceURL='' @ EVALUATION_SCRIPT_URL;
          expressionWithSourceUrl =
            (if hasSourceUrl expression then expression else expression @ [CHR 0x0A] @ suffix)
      in case send \<lparr>eval_expression = expressionWithSourceUrl,
                     eval_contextId = contextId,
                     eval_returnByValue = byValue\<rparr> of
           Throws err \<Rightarrow> Inl err
         | Rejects err \<Rightarrow>
             (case rewriteError err of
                Inl e \<Rightarrow> Inl e
              | Inr r \<Rightarrow>
                  (case ret_exceptionDetails r of
                     Some d \<Rightarrow> Inl (Error (''Evaluation failed: '' @ d))
                   | None \<Rightarrow> Inr (ret_result r)))
         | Resolves r \<Rightarrow>
             (case ret_exceptionDetails r of
                Some d \<Rightarrow> Inl (Error (''Evaluation failed: '' @ d))
              | None \<Rightarrow> Inr (ret_result r)))"

section \<open>Form interaction: select (src/chromium/JSHandle.ts)\<close>

text \<open>
  Modelled from the spec: \<^verbatim>\<open>helper.isString\<close>, \<^verbatim>\<open>helper.isNumber\<close> and \<^verbatim>\<open>assert\<close> are
  imported from \<^verbatim>\<open>../helper\<close>, which is not among the sources; the spec has them check
  the string and number types of a field and fail with the given message.
\<close>

definition isString :: "jsval \<Rightarrow> bool" where
  "isString obj = (typeof obj = ''string'')"

definition isNumber :: "jsval \<Rightarrow> bool" where
  "isNumber obj = (typeof obj = ''number'')"

definition assert :: "bool \<Rightarrow> string \<Rightarrow> js_error + unit" where
  "assert v msg = (if v then Inr () else Inl (Error msg))"

text \<open>
  A property read \<^verbatim>\<open>option.name\<close> on an option that is not \<^verbatim>\<open>null\<close>: an own property of
  an object, else \<^verbatim>\<open>undefined\<close>.
\<close>

fun property :: "jsval \<Rightarrow> string \<Rightarrow> jsval" where
  "property (JObject props) name = (case map_of props name of None \<Rightarrow> JUndefined | Some v \<Rightarrow> v)"
| "property obj name = JUndefined"

text \<open>
  The body of the \<^verbatim>\<open>for\<close> loop of \<^verbatim>\<open>select\<close> for one option. \<open>str\<close> is the string that
  \<^verbatim>\<open>+\<close> makes of a value; the engine's conversion is a parameter.
\<close>

definition checkOption :: "(jsval \<Rightarrow> string) \<Rightarrow> jsval \<Rightarrow> js_error + unit" where
  \<open>checkOption str option =
     (case option of
        JHandle True c d r \<Rightarrow> Inr ()
      | JNull \<Rightarrow> Inl (TypeError ''Cannot read property 'value' of null'')
      | _ \<Rightarrow>
        (case (if property option ''value'' \<noteq> JUndefined then
                 assert (isString (property option ''value''))
                   (''Values must be strings. Found value "'' @ str (property option ''value'')
                      @ ''" of type "'' @ typeof (property option ''value'') @ ''"'')
               else Inr ()) of
           Inl e \<Rightarrow> Inl e
         | Inr _ \<Rightarrow>
        (case (if property option ''label'' \<noteq> JUndefined then
                 assert (isString (property option ''label''))
                   (''Labels must be strings. Found label "'' @ str (property option ''label'')
                      @ ''" of type "'' @ typeof (property option ''label'') @ ''"'')
               else Inr ()) of
           Inl e \<Rightarrow> Inl e
         | Inr _ \<Rightarrow>
             (if property option ''index'' \<noteq> JUndefined then
                assert (isNumber (property option ''index''))
                  (''Indices must be numbers. Found index "'' @ str (property option ''index'')
                     @ ''" of type "'' @ typeof (property option ''index'') @ ''"'')
              else Inr ()))))\<close>

fun checkOptions :: "(jsval \<Rightarrow> string) \<Rightarrow> jsval list \<Rightarrow> js_error + unit" where
  "checkOptions str [] = Inr ()"
| "checkOptions str (option # options) =
     (case checkOption str option of Inl e \<Rightarrow> Inl e | Inr _ \<Rightarrow> checkOptions str options)"

text \<open>
  \<^verbatim>\<open>select\<close> up to its last line: \<open>Inr options\<close> is the list it spreads into
  \<^verbatim>\<open>this.evaluate(input.selectFunction, ...options)\<close>.
\<close>

definition toOption :: "jsval \<Rightarrow> jsval" where
  "toOption v = (if typeof v = ''object'' then v else JObject [(''value'', v)])"

definition select :: "(jsval \<Rightarrow> string) \<Rightarrow> jsval list \<Rightarrow> js_error + jsval list" where
  "select str values =
     (let options = map toOption values
      in case checkOptions str options of Inl e \<Rightarrow> Inl e | Inr _ \<Rightarrow> Inr options)"

section \<open>Geometry of element handles (src/chromium/JSHandle.ts)\<close>

text \<open>
  Coordinates are real numbers, as every finite double is one. \<^verbatim>\<open>computeQuadArea\<close> is
  modelled in binary64 arithmetic, every operation rounded to the nearest double. The
  minima and maxima of coordinates are exact in either arithmetic; the remaining sums
  and differences of coordinates (the mean of four corners, the offset of a relative
  point, the scroll deltas, the width and height of a box) are taken over the reals.
\<close>

text \<open>The source's \<^verbatim>\<open>type Point = {x: number; y: number}\<close>.\<close>

record point =
  px :: real
  py :: real

text \<open>
  The protocol's \<^verbatim>\<open>DOM.Quad\<close>: an array of eight numbers
  \<^verbatim>\<open>[x0, y0, x1, y1, x2, y2, x3, y3]\<close>; field \<open>qn\<close> is \<^verbatim>\<open>quad[n]\<close>.
\<close>

record protocol_quad =
  q0 :: real
  q1 :: real
  q2 :: real
  q3 :: real
  q4 :: real
  q5 :: real
  q6 :: real
  q7 :: real

text \<open>\<^verbatim>\<open>layoutMetrics.layoutViewport\<close>, as far as the source reads it.\<close>

record layout_viewport =
  clientWidth :: real
  clientHeight :: real
  pageX :: real
  pageY :: real

text \<open>
  Binary64 arithmetic. A JavaScript number that is neither \<^verbatim>\<open>NaN\<close> nor infinite is a
  real number, so coordinates are reals; what IEEE 754 adds is that the result of every
  arithmetic operation is rounded to the nearest double, a tie going to the double with
  the even significand. \<open>roundDouble\<close> is that rounding: \<open>exponentOf x\<close> is the exponent
  \<open>e\<close> with \<open>2 powi e \<le> \<bar>x\<bar> < 2 powi (e + 1)\<close>, the doubles around \<open>x\<close> are the multiples
  of \<open>2 powi (e - 52)\<close>, and below \<open>2 powi (- 1022)\<close> they are the multiples of
  \<open>2 powi (- 1074)\<close> (gradual underflow). Overflow is left out: a value beyond the largest
  finite double is rounded like any other instead of becoming \<^verbatim>\<open>Infinity\<close>; in
  \<^verbatim>\<open>computeQuadArea\<close> that takes a coordinate beyond \<open>2 powi 510\<close> in magnitude. The sign
  of zero is left out as well; \<^verbatim>\<open>Math.abs\<close> removes it.
\<close>

function log2floor :: "nat \<Rightarrow> nat" where
  "log2floor n = (if n < 2 then 0 else Suc (log2floor (n div 2)))"
  by pat_completeness auto
termination
  by (relation "measure id") auto

declare log2floor.simps [simp del]

definition exponentOf :: "real \<Rightarrow> int" where
  "exponentOf x =
     (if 1 \<le> \<bar>x\<bar> then int (log2floor (nat \<lfloor>\<bar>x\<bar>\<rfloor>))
      else - int (Suc (log2floor (nat \<lceil>1 / \<bar>x\<bar>\<rceil> - 1))))"

definition roundHalfEven :: "real \<Rightarrow> int" where
  "roundHalfEven y =
     (let f = \<lfloor>y\<rfloor>; d = y - of_int f
      in if d < 1 / 2 then f else if 1 / 2 < d then f + 1 else if even f then f else f + 1)"

definition roundDouble :: "real \<Rightarrow> real" where
  "roundDouble x =
     (if x = 0 then 0
      else (let e = max (exponentOf x) (- 1022); q = 2 powi (e - 52)
            in of_int (roundHalfEven (x / q)) * q))"

text \<open>
  \<^verbatim>\<open>computeQuadArea\<close>: the loop over \<^verbatim>\<open>i = 0 .. quad.length - 1\<close> adds the directed
  area of the triangle spanned by \<^verbatim>\<open>quad[i]\<close> and \<^verbatim>\<open>quad[(i + 1) % quad.length]\<close>.
  \<open>directedArea p1 p2\<close> is the source's \<^verbatim>\<open>(p1.x * p2.y - p2.x * p1.y) / 2\<close>: two
  products, their difference and the halving, each rounded; the \<^verbatim>\<open>+=\<close> of the loop
  rounds once more. \<^verbatim>\<open>Math.abs\<close> is exact.
\<close>

definition directedArea :: "point \<Rightarrow> point \<Rightarrow> real" where
  "directedArea p1 p2 =
     roundDouble (roundDouble (roundDouble (px p1 * py p2) - roundDouble (px p2 * py p1)) / 2)"

definition computeQuadArea :: "point list \<Rightarrow> real" where
  "computeQuadArea quad =
     \<bar>fold (\<lambda>i area. roundDouble (area + directedArea (quad ! i) (quad ! ((i + 1) mod length quad))))
           [0..<length quad] 0\<bar>"

text \<open>\<^verbatim>\<open>_fromProtocolQuad\<close> and \<^verbatim>\<open>_intersectQuadWithViewport\<close>.\<close>

definition fromProtocolQuad :: "protocol_quad \<Rightarrow> point list" where
  "fromProtocolQuad quad =
     [\<lparr>px = q0 quad, py = q1 quad\<rparr>,
      \<lparr>px = q2 quad, py = q3 quad\<rparr>,
      \<lparr>px = q4 quad, py = q5 quad\<rparr>,
      \<lparr>px = q6 quad, py = q7 quad\<rparr>]"

definition intersectQuadWithViewport :: "point list \<Rightarrow> real \<Rightarrow> real \<Rightarrow> point list" where
  "intersectQuadWithViewport quad width height =
     map (\<lambda>p. \<lparr>px = min (max (px p) 0) width, py = min (max (py p) 0) height\<rparr>) quad"

text \<open>
  The body of \<^verbatim>\<open>_clickablePoint\<close> after its two protocol requests have settled.
  \<open>result\<close> is the answer to \<^verbatim>\<open>DOM.getContentQuads\<close>, \<open>None\<close> when the request
  was rejected (the source's \<^verbatim>\<open>.catch(debugError)\<close> turns the rejection into
  \<^verbatim>\<open>undefined\<close>); \<open>lv\<close> is \<^verbatim>\<open>layoutMetrics.layoutViewport\<close>.
\<close>

definition middlePoint :: "point list \<Rightarrow> point" where
  "middlePoint quad =
     (let (x, y) = fold (\<lambda>p (x, y). (x + px p, y + py p)) quad (0, 0)
      in \<lparr>px = x / 4, py = y / 4\<rparr>)"

definition clickablePointOf :: "protocol_quad list option \<Rightarrow> layout_viewport \<Rightarrow> js_error + point" where
  "clickablePointOf result lv =
     (case result of
        None \<Rightarrow> Inl (Error ''Node is either not visible or not an HTMLElement'')
      | Some rquads \<Rightarrow>
          if rquads = [] then Inl (Error ''Node is either not visible or not an HTMLElement'')
          else
            (let quads = filter (\<lambda>quad. computeQuadArea quad > 1)
                           (map (\<lambda>quad. intersectQuadWithViewport quad (clientWidth lv) (clientHeight lv))
                              (map fromProtocolQuad rquads))
             in case quads of
                  [] \<Rightarrow> Inl (Error ''Node is either not visible or not an HTMLElement'')
                | quad # _ \<Rightarrow> Inr (middlePoint quad)))"

text \<open>
  \<^verbatim>\<open>Math.min\<close> and \<^verbatim>\<open>Math.max\<close> of four numbers, and the quads of a
  \<^verbatim>\<open>DOM.getBoxModel\<close> answer that the source reads.
\<close>

definition min4 :: "real \<Rightarrow> real \<Rightarrow> real \<Rightarrow> real \<Rightarrow> real" where
  "min4 a b c d = min (min (min a b) c) d"

definition max4 :: "real \<Rightarrow> real \<Rightarrow> real \<Rightarrow> real \<Rightarrow> real" where
  "max4 a b c d = max (max (max a b) c) d"

record box_model =
  padding :: protocol_quad
  border :: protocol_quad

text \<open>
  The body of \<^verbatim>\<open>_viewportPointAndScroll\<close>: \<open>model\<close> is what \<^verbatim>\<open>_getBoxModel\<close> resolved
  to (\<open>None\<close> for \<^verbatim>\<open>undefined\<close>, when the request was rejected), \<open>lv\<close> is
  \<^verbatim>\<open>metrics.layoutViewport\<close>. The fields \<open>ps_point\<close>, \<open>ps_scrollX\<close> and \<open>ps_scrollY\<close>
  are the returned \<^verbatim>\<open>point\<close>, \<^verbatim>\<open>scrollX\<close> and \<^verbatim>\<open>scrollY\<close>.
\<close>

record point_and_scroll =
  ps_point :: point
  ps_scrollX :: real
  ps_scrollY :: real

definition viewportPointAndScrollOf ::
    "box_model option \<Rightarrow> point \<Rightarrow> layout_viewport \<Rightarrow> point_and_scroll" where
  "viewportPointAndScrollOf model relativePoint lv =
     (let pt = (case model of
                  None \<Rightarrow> relativePoint
                | Some m \<Rightarrow>
                    (let quad = padding m;
                         x = min4 (q0 quad) (q2 quad) (q4 quad) (q6 quad);
                         y = min4 (q1 quad) (q3 quad) (q5 quad) (q7 quad)
                     in \<lparr>px = x + px relativePoint, py = y + py relativePoint\<rparr>));
          scrollX = 0;
          scrollX = (if px pt < 1 then px pt - 1 else scrollX);
          scrollX = (if px pt > clientWidth lv - 1 then px pt - clientWidth lv + 1 else scrollX);
          scrollY = 0;
          scrollY = (if py pt < 1 then py pt - 1 else scrollY);
          scrollY = (if py pt > clientHeight lv - 1 then py pt - clientHeight lv + 1 else scrollY)
      in \<lparr>ps_point = pt, ps_scrollX = scrollX, ps_scrollY = scrollY\<rparr>)"

text \<open>The computation of \<^verbatim>\<open>boundingBox\<close> from the border quad.\<close>

record bounding_box =
  box_x :: real
  box_y :: real
  box_width :: real
  box_height :: real

definition boundingBoxOf :: "box_model option \<Rightarrow> bounding_box option" where
  "boundingBoxOf res =
     (case res of
        None \<Rightarrow> None
      | Some m \<Rightarrow>
          (let quad = border m;
               x = min4 (q0 quad) (q2 quad) (q4 quad) (q6 quad);
               y = min4 (q1 quad) (q3 quad) (q5 quad) (q7 quad);
               width = max4 (q0 quad) (q2 quad) (q4 quad) (q6 quad) - x;
               height = max4 (q1 quad) (q3 quad) (q5 quad) (q7 quad) - y
           in Some \<lparr>box_x = x, box_y = y, box_width = width, box_height = height\<rparr>))"

section \<open>Protocol traffic of an element handle\<close>

text \<open>
  The asynchronous methods talk to collaborators: the protocol session, in-page
  evaluation, the page and its keyboard. A run is modelled by the list of requests it
  has issued so far, oldest first; every request appends one event. What a collaborator
  answers is given by an environment, as a function of the requests issued before, so
  that the same request can be answered differently each time.
\<close>

datatype modifier = Alt | Control | Meta | Shift

record viewport =
  viewport_width :: real
  viewport_height :: real
  viewport_rest :: "(string \<times> jsval) list"

datatype event =
    EvalScrollIntoView bool
      \<comment> \<open>the \<^verbatim>\<open>evaluate\<close> of \<^verbatim>\<open>_scrollIntoViewIfNeeded\<close>, with \<^verbatim>\<open>pageJavascriptEnabled\<close>\<close>
  | GetContentQuads
  | GetLayoutMetrics
  | GetBoxModel
  | EvalScrollBy real real
      \<comment> \<open>the \<^verbatim>\<open>evaluate\<close> in \<^verbatim>\<open>_performPointerAction\<close> that calls \<^verbatim>\<open>scrollBy\<close>\<close>
  | EnsureModifiers "modifier list"
  | PointerAction point
      \<comment> \<open>the caller's \<^verbatim>\<open>action(point)\<close>\<close>
  | SetViewport viewport
  | PageScreenshot bounding_box

type_synonym trace = "event list"

text \<open>
  An in-page function of the source returns an error text or \<^verbatim>\<open>false\<close>: \<open>Some text\<close>
  or \<open>None\<close>.
\<close>

record env =
  page_javascriptEnabled :: bool
  evaluate_scrollIntoView :: "trace \<Rightarrow> js_error + string option"
  send_getContentQuads :: "trace \<Rightarrow> js_error + protocol_quad list"
  send_getLayoutMetrics :: "trace \<Rightarrow> js_error + layout_viewport"
  send_getBoxModel :: "trace \<Rightarrow> js_error + box_model"
  evaluate_scrollBy :: "real \<Rightarrow> real \<Rightarrow> trace \<Rightarrow> js_error + string option"
  keyboard_ensureModifiers :: "modifier list \<Rightarrow> trace \<Rightarrow> js_error + modifier list"
  page_viewport :: "trace \<Rightarrow> viewport option"
  page_setViewport :: "viewport \<Rightarrow> trace \<Rightarrow> js_error + unit"
  page_screenshot :: "bounding_box \<Rightarrow> trace \<Rightarrow> js_error + string"

text \<open>
  An awaited computation: from the trace so far to a returned value (\<open>Inr\<close>) or a thrown
  error (\<open>Inl\<close>), and the trace afterwards. \<open>andThen\<close> is sequencing by \<^verbatim>\<open>await\<close>: a
  thrown error skips what follows. \<open>orUndefined\<close> is \<^verbatim>\<open>.catch(debugError)\<close>: a rejection
  becomes \<^verbatim>\<open>undefined\<close>.
\<close>

type_synonym 'a async = "trace \<Rightarrow> (js_error + 'a) \<times> trace"

definition returns :: "'a \<Rightarrow> 'a async" where
  "returns v tr = (Inr v, tr)"

definition throws :: "js_error \<Rightarrow> 'a async" where
  "throws e tr = (Inl e, tr)"

definition andThen :: "'a async \<Rightarrow> ('a \<Rightarrow> 'b async) \<Rightarrow> 'b async" where
  "andThen m f tr = (case m tr of (Inl e, tr') \<Rightarrow> (Inl e, tr') | (Inr v, tr') \<Rightarrow> f v tr')"

definition request :: "event \<Rightarrow> (trace \<Rightarrow> js_error + 'a) \<Rightarrow> 'a async" where
  "request ev answer tr = (answer tr, tr @ [ev])"

definition orUndefined :: "'a async \<Rightarrow> 'a option async" where
  "orUndefined m tr = (case m tr of (Inl e, tr') \<Rightarrow> (Inr None, tr') | (Inr v, tr') \<Rightarrow> (Inr (Some v), tr'))"

section \<open>Element handle methods (src/chromium/JSHandle.ts)\<close>

text \<open>\<^verbatim>\<open>_scrollIntoViewIfNeeded\<close>: one in-page evaluation; a truthy answer is thrown.\<close>

definition scrollIntoViewIfNeeded :: "env \<Rightarrow> unit async" where
  "scrollIntoViewIfNeeded env =
     andThen (request (EvalScrollIntoView (page_javascriptEnabled env)) (evaluate_scrollIntoView env))
       (\<lambda>error. if truthy error then throws (Error (the error)) else returns ())"

text \<open>\<^verbatim>\<open>_getBoxModel\<close>, with its \<^verbatim>\<open>.catch(error => debugError(error))\<close>.\<close>

definition getBoxModel :: "env \<Rightarrow> box_model option async" where
  "getBoxModel env = orUndefined (request GetBoxModel (send_getBoxModel env))"

text \<open>
  \<^verbatim>\<open>_clickablePoint\<close>: \<^verbatim>\<open>Promise.all\<close> of the two requests, issued in the order written,
  then the body \<open>clickablePointOf\<close>.
\<close>

definition clickablePoint :: "env \<Rightarrow> point async" where
  "clickablePoint env =
     andThen (orUndefined (request GetContentQuads (send_getContentQuads env)))
       (\<lambda>res. andThen (request GetLayoutMetrics (send_getLayoutMetrics env))
          (\<lambda>lv. case clickablePointOf res lv of Inl e \<Rightarrow> throws e | Inr p \<Rightarrow> returns p))"

text \<open>\<^verbatim>\<open>_viewportPointAndScroll\<close>.\<close>

definition viewportPointAndScroll :: "env \<Rightarrow> point \<Rightarrow> point_and_scroll async" where
  "viewportPointAndScroll env relativePoint =
     andThen (getBoxModel env)
       (\<lambda>model. andThen (request GetLayoutMetrics (send_getLayoutMetrics env))
          (\<lambda>lv. returns (viewportPointAndScrollOf model relativePoint lv)))"

text \<open>
  \<^verbatim>\<open>_performPointerAction\<close>. \<open>options\<close> is \<open>None\<close> when the argument is omitted; each
  option (\<^verbatim>\<open>relativePoint\<close>, \<^verbatim>\<open>modifiers\<close>) is \<open>None\<close> when the property is absent.
  \<open>action\<close> is the answer of the caller's action at a point.
\<close>

record pointer_action_options =
  opt_relativePoint :: "point option"
  opt_modifiers :: "modifier list option"

definition performPointerAction ::
    "env \<Rightarrow> (point \<Rightarrow> trace \<Rightarrow> js_error + unit) \<Rightarrow> pointer_action_options option \<Rightarrow> unit async" where
  "performPointerAction env action options =
     andThen (scrollIntoViewIfNeeded env) (\<lambda>_.
     andThen
       (case (case options of None \<Rightarrow> None | Some opts \<Rightarrow> opt_relativePoint opts) of
          Some rp \<Rightarrow>
            andThen (viewportPointAndScroll env rp) (\<lambda>r.
              if ps_scrollX r \<noteq> 0 \<or> ps_scrollY r \<noteq> 0 then
                andThen (request (EvalScrollBy (ps_scrollX r) (ps_scrollY r))
                           (evaluate_scrollBy env (ps_scrollX r) (ps_scrollY r))) (\<lambda>error.
                  if truthy error then throws (Error (the error))
                  else
                    andThen (viewportPointAndScroll env rp) (\<lambda>r.
                      if ps_scrollX r \<noteq> 0 \<or> ps_scrollY r \<noteq> 0 then
                        throws (Error ''Failed to scroll relative point into viewport'')
                      else returns (ps_point r)))
              else returns (ps_point r))
        | None \<Rightarrow>
            andThen (scrollIntoViewIfNeeded env) (\<lambda>_. clickablePoint env)) (\<lambda>pt.
     andThen
       (case (case options of None \<Rightarrow> None | Some opts \<Rightarrow> opt_modifiers opts) of
          Some ms \<Rightarrow>
            andThen (request (EnsureModifiers ms) (keyboard_ensureModifiers env ms))
              (\<lambda>restore. returns (Some restore))
        | None \<Rightarrow> returns None) (\<lambda>restoreModifiers.
     andThen (request (PointerAction pt) (action pt)) (\<lambda>_.
       case restoreModifiers of
         Some restore \<Rightarrow>
           andThen (request (EnsureModifiers restore) (keyboard_ensureModifiers env restore))
             (\<lambda>_. returns ())
       | None \<Rightarrow> returns ()))))"

text \<open>\<^verbatim>\<open>boundingBox\<close>.\<close>

definition boundingBox :: "env \<Rightarrow> bounding_box option async" where
  "boundingBox env = andThen (getBoxModel env) (\<lambda>res. returns (boundingBoxOf res))"

text \<open>
  \<^verbatim>\<open>screenshot\<close>. \<open>optionsClip\<close> is the \<^verbatim>\<open>clip\<close> property of the caller's options, which
  \<^verbatim>\<open>Object.assign({}, {clip}, options)\<close> lets override the computed one. The source's
  \<^verbatim>\<open>assert(boundingBox, ...)\<close> is the case distinction on \<open>None\<close>.
\<close>

definition screenshot :: "env \<Rightarrow> bounding_box option \<Rightarrow> string async" where
  "screenshot env optionsClip =
     andThen (boundingBox env) (\<lambda>bbox.
       case bbox of
         None \<Rightarrow> throws (Error ''Node is either not visible or not an HTMLElement'')
       | Some bb \<Rightarrow> (\<lambda>tr.
           (let vp = page_viewport env tr
            in andThen
                 (case vp of
                    None \<Rightarrow> returns False
                  | Some v \<Rightarrow>
                      if box_width bb > viewport_width v \<or> box_height bb > viewport_height v then
                        andThen
                          (request
                             (SetViewport
                                (v\<lparr>viewport_width := max (viewport_width v) (of_int \<lceil>box_width bb\<rceil>),
                                   viewport_height := max (viewport_height v) (of_int \<lceil>box_height bb\<rceil>)\<rparr>))
                             (page_setViewport env
                                (v\<lparr>viewport_width := max (viewport_width v) (of_int \<lceil>box_width bb\<rceil>),
                                   viewport_height := max (viewport_height v) (of_int \<lceil>box_height bb\<rceil>)\<rparr>)))
                          (\<lambda>_. returns True)
                      else returns False) (\<lambda>needsViewportReset.
               andThen (scrollIntoViewIfNeeded env) (\<lambda>_.
               andThen (boundingBox env) (\<lambda>bbox.
                 case bbox of
                   None \<Rightarrow> throws (Error ''Node is either not visible or not an HTMLElement'')
                 | Some bb \<Rightarrow>
                     if box_width bb = 0 then throws (Error ''Node has 0 width.'')
                     else if box_height bb = 0 then throws (Error ''Node has 0 height.'')
                     else
                       andThen (request GetLayoutMetrics (send_getLayoutMetrics env)) (\<lambda>lv.
                         (let clip = bb\<lparr>box_x := box_x bb + pageX lv, box_y := box_y bb + pageY lv\<rparr>;
                              clip = (case optionsClip of None \<Rightarrow> clip | Some c \<Rightarrow> c)
                          in andThen (request (PageScreenshot clip) (page_screenshot env clip))
                               (\<lambda>imageData.
                                  if needsViewportReset then
                                    andThen (request (SetViewport (the vp)) (page_setViewport env (the vp)))
                                      (\<lambda>_. returns imageData)
                                  else returns imageData))))))
              tr)))"

section \<open>Notions of the specification\<close>

text \<open>
  Four points are collinear when one line \<open>a x + b y = c\<close> holds them all. Two closed
  segments meet when they share a point. In a simple quadrilateral the two pairs of
  opposite edges do not meet.
\<close>

definition collinearPoints :: "point list \<Rightarrow> bool" where
  "collinearPoints ps = (\<exists>a b c. (a \<noteq> 0 \<or> b \<noteq> 0) \<and> (\<forall>p \<in> set ps. a * px p + b * py p = c))"

definition segmentsMeet :: "point \<Rightarrow> point \<Rightarrow> point \<Rightarrow> point \<Rightarrow> bool" where
  "segmentsMeet a b c d =
     (\<exists>s t. 0 \<le> s \<and> s \<le> 1 \<and> 0 \<le> t \<and> t \<le> 1 \<and>
        px a + s * (px b - px a) = px c + t * (px d - px c) \<and>
        py a + s * (py b - py a) = py c + t * (py d - py c))"

definition simpleQuad :: "point \<Rightarrow> point \<Rightarrow> point \<Rightarrow> point \<Rightarrow> bool" where
  "simpleQuad a b c d = (\<not> segmentsMeet a b c d \<and> \<not> segmentsMeet b c d a)"

text \<open>
  The shoelace sum of a quad in exact arithmetic: what the loop of \<^verbatim>\<open>computeQuadArea\<close>
  would accumulate, before \<^verbatim>\<open>Math.abs\<close>, if no operation rounded.
\<close>

definition shoelaceTerm :: "point \<Rightarrow> point \<Rightarrow> real" where
  "shoelaceTerm p1 p2 = (px p1 * py p2 - px p2 * py p1) / 2"

definition edgeSum :: "point list \<Rightarrow> real" where
  "edgeSum quad = (\<Sum>i<length quad. shoelaceTerm (quad ! i) (quad ! ((i + 1) mod length quad)))"

text \<open>
  The numbers \<open>m * 2 powi j\<close> with an integer \<open>m\<close> of magnitude at most \<open>N\<close>, and the
  points of the grid of step \<open>2 powi k\<close> that lie at most \<open>2 ^ 24\<close> steps from the origin
  in each coordinate.
\<close>

definition dyadic :: "int \<Rightarrow> int \<Rightarrow> real \<Rightarrow> bool" where
  "dyadic N j x = (\<exists>m::int. \<bar>m\<bar> \<le> N \<and> x = of_int m * 2 powi j)"

definition onGrid :: "int \<Rightarrow> point \<Rightarrow> bool" where
  "onGrid k p = (dyadic (2 ^ 24) k (px p) \<and> dyadic (2 ^ 24) k (py p))"

text \<open>
  A protocol quad clipped to the layout viewport, the mean of the four corners of a
  quad, and the corner of a protocol quad with the least x and the least y.
\<close>

definition clipped :: "layout_viewport \<Rightarrow> protocol_quad \<Rightarrow> point list" where
  "clipped lv quad = intersectQuadWithViewport (fromProtocolQuad quad) (clientWidth lv) (clientHeight lv)"

definition centroid :: "point list \<Rightarrow> point" where
  "centroid quad =
     \<lparr>px = (px (quad ! 0) + px (quad ! 1) + px (quad ! 2) + px (quad ! 3)) / 4,
      py = (py (quad ! 0) + py (quad ! 1) + py (quad ! 2) + py (quad ! 3)) / 4\<rparr>"

definition minCorner :: "protocol_quad \<Rightarrow> point" where
  "minCorner quad =
     \<lparr>px = Min {q0 quad, q2 quad, q4 quad, q6 quad}, py = Min {q1 quad, q3 quad, q5 quad, q7 quad}\<rparr>"

text \<open>
  Whether a value is an instance of \<^verbatim>\<open>js.JSHandle\<close>; decimal digits and the number they
  denote; the answer \<^verbatim>\<open>{result: {type: 'undefined'}}\<close>.
\<close>

fun isHandle :: "jsval \<Rightarrow> bool" where
  "isHandle (JHandle e c d r) = True"
| "isHandle v = False"

definition isDigit :: "char \<Rightarrow> bool" where
  "isDigit ch = (ch \<in> set ''0123456789'')"

definition natOfDecimal :: "string \<Rightarrow> nat" where
  "natOfDecimal s = foldl (\<lambda>acc ch. 10 * acc + (of_char ch - 48)) 0 s"

definition undefinedResult :: evaluate_return where
  "undefinedResult = \<lparr>ret_result = RemoteObject ''undefined'' None None JUndefined None, ret_exceptionDetails = None\<rparr>"

text \<open>
  The event of one scroll-into-view evaluation of an environment, the events of that
  kind, and the viewport that \<^verbatim>\<open>screenshot\<close> sets when the bounding box does not fit.
\<close>

definition scrollEvent :: "env \<Rightarrow> event" where
  "scrollEvent env = EvalScrollIntoView (page_javascriptEnabled env)"

fun isScrollIntoView :: "event \<Rightarrow> bool" where
  "isScrollIntoView (EvalScrollIntoView j) = True"
| "isScrollIntoView ev = False"

definition enlargedViewport :: "viewport \<Rightarrow> bounding_box \<Rightarrow> viewport" where
  "enlargedViewport v bb =
     v\<lparr>viewport_width := max (viewport_width v) (of_int \<lceil>box_width bb\<rceil>),
       viewport_height := max (viewport_height v) (of_int \<lceil>box_height bb\<rceil>)\<rparr>"

section \<open>Sample inputs\<close>

text \<open>
  A one-pixel quad, a 20 by 20 quad that reaches over the right edge of an 800 by 600
  viewport, and a box model whose padding quad starts at \<open>(500, 500)\<close>.
\<close>

definition sliver :: protocol_quad where
  "sliver = \<lparr>q0 = 0, q1 = 0, q2 = 1, q3 = 0, q4 = 1, q5 = 1, q6 = 0, q7 = 1\<rparr>"

definition button :: protocol_quad where
  "button = \<lparr>q0 = 790, q1 = 10, q2 = 810, q3 = 10, q4 = 810, q5 = 30, q6 = 790, q7 = 30\<rparr>"

definition viewport800x600 :: layout_viewport where
  "viewport800x600 = \<lparr>clientWidth = 800, clientHeight = 600, pageX = 0, pageY = 0\<rparr>"

definition farBox :: box_model where
  "farBox = \<lparr>padding = \<lparr>q0 = 500, q1 = 500, q2 = 540, q3 = 500, q4 = 540, q5 = 520, q6 = 500, q7 = 520\<rparr>,
             border = \<lparr>q0 = 499, q1 = 499, q2 = 541, q3 = 499, q4 = 541, q5 = 521, q6 = 499, q7 = 521\<rparr>\<rparr>"

text \<open>
  Four points of the line \<open>y = x + 1\<close> near \<open>2 ^ 27 = 134217728\<close>, the unit square moved
  to \<open>(2 ^ 27, 2 ^ 27)\<close>, and a quad with one far corner at \<open>(- 2 ^ 53, 0)\<close>. All
  coordinates are integers below \<open>2 ^ 53\<close> in magnitude, or \<open>- 2 ^ 53\<close>, hence doubles.
\<close>

definition steepLine :: "point list" where
  "steepLine = [\<lparr>px = 134217728, py = 134217729\<rparr>, \<lparr>px = 134217729, py = 134217730\<rparr>,
                \<lparr>px = 134217730, py = 134217731\<rparr>, \<lparr>px = 134217731, py = 134217732\<rparr>]"

definition farSquare :: "point list" where
  "farSquare = [\<lparr>px = 134217728, py = 134217728\<rparr>, \<lparr>px = 134217729, py = 134217728\<rparr>,
                \<lparr>px = 134217729, py = 134217729\<rparr>, \<lparr>px = 134217728, py = 134217729\<rparr>]"

definition lopsided :: "point list" where
  "lopsided = [\<lparr>px = 1, py = 0\<rparr>, \<lparr>px = 1, py = 1\<rparr>, \<lparr>px = 0, py = 1\<rparr>, \<lparr>px = - 9007199254740992, py = 0\<rparr>]"

text \<open>
  Rejections of the protocol session, and a parser that accepts exactly three texts: an
  arrow function and two function expressions.
\<close>

definition chainTooLong :: js_error where
  "chainTooLong = Error ''Protocol error (Runtime.callFunctionOn): Object reference chain is too long''"

definition notByValue :: js_error where
  \<open>notByValue = Error ''Protocol error (Runtime.callFunctionOn): Object couldn't be returned by value''\<close>

definition targetClosed :: js_error where
  "targetClosed = Error ''Protocol error (Runtime.callFunctionOn): Inspected target navigated or closed''"

definition noContext :: js_error where
  "noContext = Error ''Protocol error (Runtime.callFunctionOn): Cannot find context with specified id''"

definition sessionClosed :: js_error where
  "sessionClosed = Error ''Protocol error (Runtime.callFunctionOn): Session closed.''"

definition sampleParses :: "string \<Rightarrow> bool" where
  "sampleParses t = (t \<in> {''(() => 1)'', ''(function get() { return 1; })'', ''(async function get() { return 1; })''})"

text \<open>
  The call \<^verbatim>\<open>select("b", {label: "Second"}, 2)\<close>, the option list
  \<^verbatim>\<open>[{value: "b"}, {label: "Second"}, {index: 2}]\<close>, and a printer that stands for the
  engine's string conversion on the values of the examples.
\<close>

definition selectArguments :: "jsval list" where
  "selectArguments = [JString ''b'', JObject [(''label'', JString ''Second'')], JNumber (Num 2)]"

definition claimedOptions :: "jsval list" where
  "claimedOptions = [JObject [(''value'', JString ''b'')], JObject [(''label'', JString ''Second'')],
                     JObject [(''index'', JNumber (Num 2))]]"

fun sampleStr :: "jsval \<Rightarrow> string" where
  "sampleStr (JString s) = s"
| "sampleStr (JBoolean b) = (if b then ''true'' else ''false'')"
| "sampleStr (JNumber (Num r)) = (if r = 2 then ''2'' else ''a number'')"
| "sampleStr v = ''a value''"

text \<open>
  A banner 1000.5 wide and 50 high, its bounding box, a page viewport of 800 by 600 and
  that viewport widened to hold the banner. An environment in which every collaborator
  succeeds, and the same environment with a page whose capture is rejected.
\<close>

definition bannerBox :: box_model where
  "bannerBox =
     \<lparr>padding = \<lparr>q0 = 0, q1 = 100, q2 = 1000.5, q3 = 100, q4 = 1000.5, q5 = 150, q6 = 0, q7 = 150\<rparr>,
      border = \<lparr>q0 = 0, q1 = 100, q2 = 1000.5, q3 = 100, q4 = 1000.5, q5 = 150, q6 = 0, q7 = 150\<rparr>\<rparr>"

definition bannerBounding :: bounding_box where
  "bannerBounding = \<lparr>box_x = 0, box_y = 100, box_width = 1000.5, box_height = 50\<rparr>"

definition pageViewport :: viewport where
  "pageViewport = \<lparr>viewport_width = 800, viewport_height = 600, viewport_rest = []\<rparr>"

definition widenedViewport :: viewport where
  "widenedViewport = \<lparr>viewport_width = 1001, viewport_height = 600, viewport_rest = []\<rparr>"

definition calmEnv :: env where
  "calmEnv =
     \<lparr>page_javascriptEnabled = True,
      evaluate_scrollIntoView = (\<lambda>tr. Inr None),
      send_getContentQuads = (\<lambda>tr. Inr [sliver, button]),
      send_getLayoutMetrics = (\<lambda>tr. Inr viewport800x600),
      send_getBoxModel = (\<lambda>tr. Inr bannerBox),
      evaluate_scrollBy = (\<lambda>dx dy tr. Inr None),
      keyboard_ensureModifiers = (\<lambda>ms tr. Inr []),
      page_viewport = (\<lambda>tr. Some pageViewport),
      page_setViewport = (\<lambda>v tr. Inr ()),
      page_screenshot = (\<lambda>clip tr. Inr ''image'')\<rparr>"

definition captureFailsEnv :: env where
  "captureFailsEnv =
     calmEnv\<lparr>page_screenshot :=
       (\<lambda>clip tr. Inl (Error ''Protocol error (Page.captureScreenshot): Target closed.''))\<rparr>"

section \<open>Properties\<close>

subsection \<open>The text of an evaluated function\<close>

text \<open>
  Claim C9. When the text of the function does not parse between parentheses, one
  rewritten text is tried and no other: a text that starts with \<open>async\<close> and a space
  gets that prefix replaced by \<open>async function\<close> and a space, any other text gets
  \<open>function\<close> and a space in front. When the rewritten text does not parse either,
  \<^verbatim>\<open>evaluate\<close> fails with \<^verbatim>\<open>Passed function is not well-serializable!\<close>. At most two
  texts are ever handed to the parser.
\<close>

theorem functionText_one_rewrite:
  "(parses (''('' @ functionText @ '')'')
      \<longrightarrow> parseFunctionText parses functionText = ([''('' @ functionText @ '')''], Inr functionText))
   \<and> (\<not> parses (''('' @ ''async '' @ rest @ '')'')
      \<longrightarrow> fst (parseFunctionText parses (''async '' @ rest))
            = [''('' @ ''async '' @ rest @ '')'', ''('' @ ''async function '' @ rest @ '')'']
        \<and> snd (parseFunctionText parses (''async '' @ rest))
            = (if parses (''('' @ ''async function '' @ rest @ '')'') then Inr (''async function '' @ rest)
               else Inl (Error ''Passed function is not well-serializable!'')))
   \<and> (\<not> parses (''('' @ functionText @ '')'') \<and> \<not> startsWith functionText ''async ''
      \<longrightarrow> fst (parseFunctionText parses functionText)
            = [''('' @ functionText @ '')'', ''('' @ ''function '' @ functionText @ '')'']
        \<and> snd (parseFunctionText parses functionText)
            = (if parses (''('' @ ''function '' @ functionText @ '')'') then Inr (''function '' @ functionText)
               else Inl (Error ''Passed function is not well-serializable!'')))
   \<and> length (fst (parseFunctionText parses functionText)) \<le> 2
   \<and> (snd (parseFunctionText parses functionText) = Inl (Error ''Passed function is not well-serializable!'')
      \<longrightarrow> evaluateFunction parses send ctx contextId byValue functionText args
            = Inl (Error ''Passed function is not well-serializable!''))"
proof (intro conjI impI)
  assume "parses (''('' @ functionText @ '')'')"
  then show "parseFunctionText parses functionText = ([''('' @ functionText @ '')''], Inr functionText)"
    by (simp add: parseFunctionText_def)
next
  assume a: "\<not> parses (''('' @ ''async '' @ rest @ '')'')"
  have s: "startsWith (''async '' @ rest) ''async ''"
    by (simp add: startsWith_def)
  show "fst (parseFunctionText parses (''async '' @ rest))
            = [''('' @ ''async '' @ rest @ '')'', ''('' @ ''async function '' @ rest @ '')'']"
    using a s by (simp add: parseFunctionText_def Let_def)
  show "snd (parseFunctionText parses (''async '' @ rest))
            = (if parses (''('' @ ''async function '' @ rest @ '')'') then Inr (''async function '' @ rest)
               else Inl (Error ''Passed function is not well-serializable!''))"
    using a s by (simp add: parseFunctionText_def Let_def)
next
  assume a: "\<not> parses (''('' @ functionText @ '')'') \<and> \<not> startsWith functionText ''async ''"
  show "fst (parseFunctionText parses functionText)
            = [''('' @ functionText @ '')'', ''('' @ ''function '' @ functionText @ '')'']"
    using a by (simp add: parseFunctionText_def Let_def)
  show "snd (parseFunctionText parses functionText)
            = (if parses (''('' @ ''function '' @ functionText @ '')'') then Inr (''function '' @ functionText)
               else Inl (Error ''Passed function is not well-serializable!''))"
    using a by (simp add: parseFunctionText_def Let_def)
next
  show "length (fst (parseFunctionText parses functionText)) \<le> 2"
    by (simp add: parseFunctionText_def Let_def)
next
  assume "snd (parseFunctionText parses functionText) = Inl (Error ''Passed function is not well-serializable!'')"
  then show "evaluateFunction parses send ctx contextId byValue functionText args
            = Inl (Error ''Passed function is not well-serializable!'')"
    by (simp add: evaluateFunction_def)
qed

text \<open>The theorem at an arrow function, two method shorthands and a computed method name.\<close>

theorem functionText_one_rewrite_witness:
  "parseFunctionText sampleParses ''() => 1'' = ([''(() => 1)''], Inr ''() => 1'')
   \<and> parseFunctionText sampleParses ''async get() { return 1; }''
       = ([''(async get() { return 1; })'', ''(async function get() { return 1; })''],
          Inr ''async function get() { return 1; }'')
   \<and> parseFunctionText sampleParses ''get() { return 1; }''
       = ([''(get() { return 1; })'', ''(function get() { return 1; })''], Inr ''function get() { return 1; }'')
   \<and> parseFunctionText sampleParses ''[key]() { return 1; }''
       = ([''([key]() { return 1; })'', ''(function [key]() { return 1; })''],
          Inl (Error ''Passed function is not well-serializable!''))
   \<and> evaluateFunction sampleParses (\<lambda>req. Throws (Error ''unreachable'')) 1 7 True ''[key]() { return 1; }'' []
       = Inl (Error ''Passed function is not well-serializable!'')"
proof -
  have p: "sampleParses ''(() => 1)''"
    "\<not> sampleParses (''('' @ ''async '' @ ''get() { return 1; }'' @ '')'')"
    "sampleParses (''('' @ ''async function '' @ ''get() { return 1; }'' @ '')'')"
    "\<not> sampleParses (''('' @ ''get() { return 1; }'' @ '')'')"
    "sampleParses (''('' @ ''function '' @ ''get() { return 1; }'' @ '')'')"
    "\<not> sampleParses (''('' @ ''[key]() { return 1; }'' @ '')'')"
    "\<not> sampleParses (''('' @ ''function '' @ ''[key]() { return 1; }'' @ '')'')"
    by (simp_all add: sampleParses_def)
  have s: "\<not> startsWith ''get() { return 1; }'' ''async ''" "\<not> startsWith ''[key]() { return 1; }'' ''async ''"
    by (simp_all add: startsWith_def)
  have a: "parseFunctionText sampleParses ''() => 1'' = ([''(() => 1)''], Inr ''() => 1'')"
    using p(1) functionText_one_rewrite[of sampleParses "''() => 1''"] by simp
  have b: "parseFunctionText sampleParses ''async get() { return 1; }''
       = ([''(async get() { return 1; })'', ''(async function get() { return 1; })''],
          Inr ''async function get() { return 1; }'')"
    using p(2,3) functionText_one_rewrite[of sampleParses "''() => 1''" "''get() { return 1; }''"]
    by (simp add: prod_eq_iff)
  have c: "parseFunctionText sampleParses ''get() { return 1; }''
       = ([''(get() { return 1; })'', ''(function get() { return 1; })''], Inr ''function get() { return 1; }'')"
    using p(4,5) s(1) functionText_one_rewrite[of sampleParses "''get() { return 1; }''"]
    by (simp add: prod_eq_iff)
  have d: "parseFunctionText sampleParses ''[key]() { return 1; }''
       = ([''([key]() { return 1; })'', ''(function [key]() { return 1; })''],
          Inl (Error ''Passed function is not well-serializable!''))"
    using p(6,7) s(2) functionText_one_rewrite[of sampleParses "''[key]() { return 1; }''"]
    by (simp add: prod_eq_iff)
  have e: "evaluateFunction sampleParses (\<lambda>req. Throws (Error ''unreachable'')) 1 7 True ''[key]() { return 1; }'' []
       = Inl (Error ''Passed function is not well-serializable!'')"
    using d functionText_one_rewrite[of sampleParses "''[key]() { return 1; }''" "[]"
        "\<lambda>req. Throws (Error ''unreachable'')" 1 7 True "[]"]
    by simp
  show ?thesis using a b c d e by simp
qed

subsection \<open>Arguments of evaluate\<close>

lemma digitChar_cases:
  assumes "d < 10"
  shows "isDigit (digitChar d) \<and> (of_char (digitChar d) :: nat) = 48 + d"
proof -
  from assms consider "d = 0" | "d = 1" | "d = 2" | "d = 3" | "d = 4" | "d = 5"
    | "d = 6" | "d = 7" | "d = 8" | "d = 9"
    by atomize_elim arith
  then show ?thesis
    by cases (simp_all add: digitChar_def isDigit_def)
qed

lemma natOfDecimal_snoc: "natOfDecimal (s @ [ch]) = 10 * natOfDecimal s + (of_char ch - 48)"
  by (simp add: natOfDecimal_def)

lemma natToString_digits: "list_all isDigit (natToString n) \<and> natOfDecimal (natToString n) = n"
proof (induction n rule: natToString.induct)
  case (1 n)
  show ?case
  proof (cases "n < 10")
    case True
    then show ?thesis
      using digitChar_cases[of n] by (simp add: natToString.simps[of n] natOfDecimal_def)
  next
    case False
    have "n mod 10 < 10" by simp
    then have d: "isDigit (digitChar (n mod 10))" "(of_char (digitChar (n mod 10)) :: nat) = 48 + n mod 10"
      using digitChar_cases[of "n mod 10"] by simp_all
    from False 1 have ih: "list_all isDigit (natToString (n div 10))"
      "natOfDecimal (natToString (n div 10)) = n div 10" by simp_all
    show ?thesis
      using False ih d by (simp add: natToString.simps[of n] natOfDecimal_snoc)
  qed
qed

text \<open>
  Claim C6. \<^verbatim>\<open>convertArgument\<close> turns a bigint into the unserializable value made of its
  decimal digits (after a minus sign when negative) and a trailing \<open>n\<close>; it turns
  \<open>-0\<close>, \<open>Infinity\<close>, \<open>-Infinity\<close> and \<open>NaN\<close> into the unserializable values
  \<^verbatim>\<open>"-0"\<close>, \<^verbatim>\<open>"Infinity"\<close>, \<^verbatim>\<open>"-Infinity"\<close> and \<^verbatim>\<open>"NaN"\<close>, while \<open>0\<close> is inlined;
  every other value that is not a handle is inlined as \<^verbatim>\<open>{value: arg}\<close>.
\<close>

theorem convertArgument_unserializable:
  "convertArgument context (JBigInt i) = Inr (UnserializableValue (bigintToString i @ ''n''))
   \<and> (0 \<le> i \<longrightarrow> list_all isDigit (bigintToString i) \<and> int (natOfDecimal (bigintToString i)) = i)
   \<and> (i < 0 \<longrightarrow> bigintToString i = ''-'' @ bigintToString (- i))
   \<and> convertArgument context (JNumber NegativeZero) = Inr (UnserializableValue ''-0'')
   \<and> convertArgument context (JNumber Infinity) = Inr (UnserializableValue ''Infinity'')
   \<and> convertArgument context (JNumber NegativeInfinity) = Inr (UnserializableValue ''-Infinity'')
   \<and> convertArgument context (JNumber NaN) = Inr (UnserializableValue ''NaN'')
   \<and> convertArgument context (JNumber (Num 0)) = Inr (Value (JNumber (Num 0)))
   \<and> (typeof arg \<noteq> ''bigint'' \<and> \<not> isHandle arg
        \<and> arg \<notin> {JNumber NegativeZero, JNumber Infinity, JNumber NegativeInfinity, JNumber NaN}
      \<longrightarrow> convertArgument context arg = Inr (Value arg))"
proof (intro conjI impI)
  assume "0 \<le> i"
  then show "list_all isDigit (bigintToString i)" "int (natOfDecimal (bigintToString i)) = i"
    using natToString_digits[of "nat i"] by (simp_all add: bigintToString_def)
next
  assume "i < 0"
  then show "bigintToString i = ''-'' @ bigintToString (- i)"
    by (simp add: bigintToString_def)
next
  assume a: "typeof arg \<noteq> ''bigint'' \<and> \<not> isHandle arg
        \<and> arg \<notin> {JNumber NegativeZero, JNumber Infinity, JNumber NegativeInfinity, JNumber NaN}"
  show "convertArgument context arg = Inr (Value arg)"
  proof (cases arg)
    case (JNumber n)
    with a show ?thesis by (cases n) simp_all
  qed (use a in simp_all)
qed simp_all

text \<open>The theorem at the bigints 907 and -12, a string and an object.\<close>

theorem convertArgument_unserializable_witness:
  "convertArgument 1 (JBigInt 907) = Inr (UnserializableValue ''907n'')
   \<and> convertArgument 1 (JBigInt (- 12)) = Inr (UnserializableValue ''-12n'')
   \<and> natOfDecimal (bigintToString 907) = 907
   \<and> convertArgument 1 (JNumber NegativeZero) = Inr (UnserializableValue ''-0'')
   \<and> convertArgument 1 (JNumber (Num 0)) = Inr (Value (JNumber (Num 0)))
   \<and> convertArgument 1 (JString ''a'') = Inr (Value (JString ''a''))
   \<and> convertArgument 1 (JObject [(''n'', JNumber (Num 1))]) = Inr (Value (JObject [(''n'', JNumber (Num 1))]))"
proof -
  have s: "bigintToString 907 = ''907''" "bigintToString 12 = ''12''"
    by (simp_all add: bigintToString_def natToString.simps digitChar_def)
  show ?thesis
    using s convertArgument_unserializable[of 1 907 "JString ''a''"]
      convertArgument_unserializable[of 1 "- 12" "JObject [(''n'', JNumber (Num 1))]"]
    by simp
qed

text \<open>
  Claim C5. A handle passed as an argument fails the conversion with the cross-context
  error when it belongs to another execution context, whether disposed or not; a
  disposed handle of the same context fails with the disposed-handle error whatever its
  remote-object descriptor holds (an object id, an inline value or an unserializable
  value); so a disposed handle never converts.
\<close>

theorem convertArgument_handle_errors:
  "(c \<noteq> context \<longrightarrow>
      convertArgument context (JHandle e c d remoteObject)
        = Inl (Error ''JSHandles can be evaluated only in the context they were created!''))
   \<and> (d \<longrightarrow> convertArgument context (JHandle e context d remoteObject) = Inl (Error ''JSHandle is disposed!''))
   \<and> (d \<longrightarrow> (\<exists>err. convertArgument context (JHandle e c d remoteObject) = Inl err))"
  by simp

text \<open>The theorem at a handle of another context and at disposed handles of the three descriptor shapes.\<close>

theorem convertArgument_handle_errors_witness:
  "convertArgument 1 (JHandle True 2 False (RemoteObject ''object'' (Some ''node'') (Some ''id-1'') JUndefined None))
     = Inl (Error ''JSHandles can be evaluated only in the context they were created!'')
   \<and> convertArgument 1 (JHandle True 1 True (RemoteObject ''object'' (Some ''node'') (Some ''id-1'') JUndefined None))
     = Inl (Error ''JSHandle is disposed!'')
   \<and> convertArgument 1 (JHandle False 1 True (RemoteObject ''string'' None None (JString ''a'') None))
     = Inl (Error ''JSHandle is disposed!'')
   \<and> convertArgument 1 (JHandle False 1 True (RemoteObject ''number'' None None JUndefined (Some ''NaN'')))
     = Inl (Error ''JSHandle is disposed!'')"
  using
    convertArgument_handle_errors[of 2 1 True False "RemoteObject ''object'' (Some ''node'') (Some ''id-1'') JUndefined None"]
    convertArgument_handle_errors[of 1 1 True True "RemoteObject ''object'' (Some ''node'') (Some ''id-1'') JUndefined None"]
    convertArgument_handle_errors[of 1 1 True False "RemoteObject ''string'' None None (JString ''a'') None"]
    convertArgument_handle_errors[of 1 1 True False "RemoteObject ''number'' None None JUndefined (Some ''NaN'')"]
  by simp

subsection \<open>Rejections of a remote call\<close>

lemma rewriteError_no_exception: "rewriteError error = Inr r \<Longrightarrow> ret_exceptionDetails r = None"
  by (auto simp: rewriteError_def split: if_splits)

lemma evaluateFunction_rejected:
  assumes "snd (parseFunctionText parses functionText) = Inr text"
    and "convertArguments context args = Inr cargs"
    and "send \<lparr>functionDeclaration = text @ [CHR 0x0A] @ ''//# sourceURL='' @ EVALUATION_SCRIPT_URL @ [CHR 0x0A],
               executionContextId = contextId, arguments = cargs, returnByValue = byValue\<rparr> = Rejects error"
  shows "evaluateFunction parses send context contextId byValue functionText args
           = map_sum id ret_result (rewriteError error)"
proof (cases "rewriteError error")
  case (Inl e)
  then show ?thesis using assms by (simp add: evaluateFunction_def)
next
  case (Inr r)
  then show ?thesis using assms rewriteError_no_exception[OF Inr] by (simp add: evaluateFunction_def)
qed

lemma evaluateExpression_rejected:
  assumes "send \<lparr>eval_expression =
                   (if hasSourceUrl expression then expression
                    else expression @ [CHR 0x0A] @ ''//# sourceURL='' @ EVALUATION_SCRIPT_URL),
               eval_contextId = contextId, eval_returnByValue = byValue\<rparr> = Rejects error"
  shows "evaluateExpression hasSourceUrl send contextId byValue expression
           = map_sum id ret_result (rewriteError error)"
proof -
  have "evaluateExpression hasSourceUrl send contextId byValue expression
          = (case rewriteError error of
               Inl e \<Rightarrow> Inl e
             | Inr r \<Rightarrow>
                 (case ret_exceptionDetails r of
                    Some d \<Rightarrow> Inl (Error (''Evaluation failed: '' @ d))
                  | None \<Rightarrow> Inr (ret_result r)))"
    unfolding evaluateExpression_def Let_def assms by simp
  then show ?thesis
    using rewriteError_no_exception[of error]
    by (cases "rewriteError error") simp_all
qed

text \<open>
  Claim C4. When the remote call rejects, the message of the rejection decides the
  outcome, the cases taken in this order: a message containing
  \<^verbatim>\<open>Object reference chain is too long\<close> or \<^verbatim>\<open>Object couldn't be returned by value\<close>
  gives the successful answer \<^verbatim>\<open>{result: {type: 'undefined'}}\<close>; otherwise a message
  ending in \<^verbatim>\<open>Cannot find context with specified id\<close> or
  \<^verbatim>\<open>Inspected target navigated or closed\<close> is replaced by the context-destroyed error;
  every other rejection is thrown on unchanged. \<^verbatim>\<open>evaluate\<close> ends with exactly that
  outcome when its request rejects: \<^verbatim>\<open>Runtime.callFunctionOn\<close> for a function,
  \<^verbatim>\<open>Runtime.evaluate\<close> for a string.
\<close>

theorem rewriteError_outcomes:
  \<open>(stringIncludes (message error) ''Object reference chain is too long''
      \<or> stringIncludes (message error) ''Object couldn't be returned by value''
     \<longrightarrow> rewriteError error = Inr undefinedResult)
   \<and> (\<not> stringIncludes (message error) ''Object reference chain is too long''
      \<and> \<not> stringIncludes (message error) ''Object couldn't be returned by value''
      \<and> (endsWith (message error) ''Cannot find context with specified id''
           \<or> endsWith (message error) ''Inspected target navigated or closed'')
     \<longrightarrow> rewriteError error = Inl (Error ''Execution context was destroyed, most likely because of a navigation.''))
   \<and> (\<not> stringIncludes (message error) ''Object reference chain is too long''
      \<and> \<not> stringIncludes (message error) ''Object couldn't be returned by value''
      \<and> \<not> endsWith (message error) ''Cannot find context with specified id''
      \<and> \<not> endsWith (message error) ''Inspected target navigated or closed''
     \<longrightarrow> rewriteError error = Inl error)
   \<and> (snd (parseFunctionText parses functionText) = Inr text
      \<and> convertArguments context args = Inr cargs
      \<and> send \<lparr>functionDeclaration = text @ [CHR 0x0A] @ ''//# sourceURL='' @ EVALUATION_SCRIPT_URL @ [CHR 0x0A],
               executionContextId = contextId, arguments = cargs, returnByValue = byValue\<rparr> = Rejects error
     \<longrightarrow> evaluateFunction parses send context contextId byValue functionText args
           = map_sum id ret_result (rewriteError error))
   \<and> (sendEvaluate \<lparr>eval_expression =
                   (if hasSourceUrl expression then expression
                    else expression @ [CHR 0x0A] @ ''//# sourceURL='' @ EVALUATION_SCRIPT_URL),
               eval_contextId = contextId, eval_returnByValue = byValue\<rparr> = Rejects error
     \<longrightarrow> evaluateExpression hasSourceUrl sendEvaluate contextId byValue expression
           = map_sum id ret_result (rewriteError error))\<close>
  using evaluateFunction_rejected[of parses functionText "text" "context" args cargs send contextId byValue error]
    evaluateExpression_rejected[of sendEvaluate hasSourceUrl expression contextId byValue error]
  by (simp add: rewriteError_def undefinedResult_def)

lemma sample_messages:
  \<open>stringIncludes (message chainTooLong) ''Object reference chain is too long''\<close>
  \<open>stringIncludes (message notByValue) ''Object couldn't be returned by value''\<close>
  \<open>\<not> stringIncludes (message targetClosed) ''Object reference chain is too long''\<close>
  \<open>\<not> stringIncludes (message targetClosed) ''Object couldn't be returned by value''\<close>
  \<open>endsWith (message targetClosed) ''Inspected target navigated or closed''\<close>
  \<open>\<not> stringIncludes (message noContext) ''Object reference chain is too long''\<close>
  \<open>\<not> stringIncludes (message noContext) ''Object couldn't be returned by value''\<close>
  \<open>endsWith (message noContext) ''Cannot find context with specified id''\<close>
  \<open>\<not> stringIncludes (message sessionClosed) ''Object reference chain is too long''\<close>
  \<open>\<not> stringIncludes (message sessionClosed) ''Object couldn't be returned by value''\<close>
  \<open>\<not> endsWith (message sessionClosed) ''Cannot find context with specified id''\<close>
  \<open>\<not> endsWith (message sessionClosed) ''Inspected target navigated or closed''\<close>
  by code_simp+

text \<open>The theorem at five protocol errors.\<close>

theorem rewriteError_outcomes_witness:
  \<open>rewriteError chainTooLong = Inr undefinedResult
   \<and> rewriteError notByValue = Inr undefinedResult
   \<and> rewriteError targetClosed = Inl (Error ''Execution context was destroyed, most likely because of a navigation.'')
   \<and> rewriteError noContext = Inl (Error ''Execution context was destroyed, most likely because of a navigation.'')
   \<and> rewriteError sessionClosed = Inl sessionClosed
   \<and> evaluateFunction (\<lambda>text. True) (\<lambda>req. Rejects targetClosed) 1 7 True ''() => 1'' []
       = Inl (Error ''Execution context was destroyed, most likely because of a navigation.'')
   \<and> evaluateExpression (\<lambda>text. False) (\<lambda>req. Rejects chainTooLong) 7 True ''window''
       = Inr (RemoteObject ''undefined'' None None JUndefined None)\<close>
proof -
  have p: "snd (parseFunctionText (\<lambda>text. True) ''() => 1'') = Inr ''() => 1''"
    by (simp add: parseFunctionText_def)
  have c: "convertArguments 1 [] = Inr []" by simp
  show ?thesis
    using sample_messages p c
      rewriteError_outcomes[of chainTooLong "\<lambda>text. True" "''() => 1''" "''() => 1''" 1 "[]" "[]"
        "\<lambda>req. Rejects chainTooLong" 7 True "\<lambda>req. Rejects chainTooLong" "\<lambda>text. False" "''window''"]
      rewriteError_outcomes[of notByValue "\<lambda>text. True" "''() => 1''" "''() => 1''" 1 "[]" "[]" "\<lambda>req. Rejects targetClosed" 7 True]
      rewriteError_outcomes[of targetClosed "\<lambda>text. True" "''() => 1''" "''() => 1''" 1 "[]" "[]" "\<lambda>req. Rejects targetClosed" 7 True]
      rewriteError_outcomes[of noContext "\<lambda>text. True" "''() => 1''" "''() => 1''" 1 "[]" "[]" "\<lambda>req. Rejects targetClosed" 7 True]
      rewriteError_outcomes[of sessionClosed "\<lambda>text. True" "''() => 1''" "''() => 1''" 1 "[]" "[]" "\<lambda>req. Rejects targetClosed" 7 True]
    by (simp add: undefinedResult_def)
qed

subsection \<open>The options of select\<close>

lemma checkOption_object_value:
  \<open>property (JObject props) ''value'' \<noteq> JUndefined \<Longrightarrow> \<not> isString (property (JObject props) ''value'') \<Longrightarrow>
   checkOption str (JObject props)
     = Inl (Error (''Values must be strings. Found value "'' @ str (property (JObject props) ''value'')
                     @ ''" of type "'' @ typeof (property (JObject props) ''value'') @ ''"''))\<close>
  by (simp add: checkOption_def assert_def)

lemma checkOptions_append:
  "checkOptions str (xs @ ys) = (case checkOptions str xs of Inl e \<Rightarrow> Inl e | Inr _ \<Rightarrow> checkOptions str ys)"
  by (induction xs) (simp_all split: sum.splits)

lemma checkOptions_all_ok:
  "(\<forall>opt \<in> set xs. checkOption str opt = Inr ()) \<Longrightarrow> checkOptions str xs = Inr ()"
  by (induction xs) simp_all

lemma checkOptions_Inr: "checkOptions str xs = Inr u \<Longrightarrow> \<forall>opt \<in> set xs. checkOption str opt = Inr ()"
  by (induction xs) (auto split: sum.splits)

lemma checkOption_Inr_value:
  assumes \<open>checkOption str opt = Inr ()\<close>
  shows \<open>property opt ''value'' = JUndefined \<or> isString (property opt ''value'')\<close>
proof (cases opt)
  case (JObject props)
  then show ?thesis using assms checkOption_object_value[of props str] by auto
qed simp_all

text \<open>
  Claim C1, as the code has it. For the call \<^verbatim>\<open>select("b", {label: "Second"}, 2)\<close> the
  arguments become \<^verbatim>\<open>[{value: "b"}, {label: "Second"}, {value: 2}]\<close>, since an argument
  that is not an object always becomes \<^verbatim>\<open>{value: arg}\<close>, and the call is rejected with
  \<^verbatim>\<open>Values must be strings. Found value "2" of type "number"\<close>. An argument that is
  already an object is passed on as it is. When \<^verbatim>\<open>select\<close> accepts its arguments, no
  option has a \<^verbatim>\<open>value\<close> that is present and not a string; and the first option, in
  argument order, whose \<^verbatim>\<open>value\<close> is present and not a string is rejected with the
  error that names that value and its \<^verbatim>\<open>typeof\<close>.
\<close>

theorem select_normalizes:
  \<open>map toOption selectArguments
     = [JObject [(''value'', JString ''b'')], JObject [(''label'', JString ''Second'')],
        JObject [(''value'', JNumber (Num 2))]]
   \<and> select str selectArguments = Inl (Error (''Values must be strings. Found value "'' @ str (JNumber (Num 2)) @ ''" of type "number"''))
   \<and> (typeof v = ''object'' \<longrightarrow> toOption v = v)
   \<and> (typeof v \<noteq> ''object'' \<longrightarrow> toOption v = JObject [(''value'', v)])
   \<and> (select str values = Inr options \<longrightarrow>
        options = map toOption values
        \<and> (\<forall>opt \<in> set options. property opt ''value'' = JUndefined \<or> isString (property opt ''value'')))
   \<and> ((\<forall>w \<in> set before. checkOption str (toOption w) = Inr ())
        \<and> property (JObject props) ''value'' \<noteq> JUndefined \<and> \<not> isString (property (JObject props) ''value'')
      \<longrightarrow> select str (before @ JObject props # after)
            = Inl (Error (''Values must be strings. Found value "'' @ str (property (JObject props) ''value'')
                     @ ''" of type "'' @ typeof (property (JObject props) ''value'') @ ''"'')))\<close>
proof (intro conjI impI)
  show \<open>map toOption selectArguments
     = [JObject [(''value'', JString ''b'')], JObject [(''label'', JString ''Second'')],
        JObject [(''value'', JNumber (Num 2))]]\<close>
    by (simp add: selectArguments_def toOption_def)
next
  show \<open>select str selectArguments = Inl (Error (''Values must be strings. Found value "'' @ str (JNumber (Num 2)) @ ''" of type "number"''))\<close>
    by (simp add: select_def selectArguments_def toOption_def checkOption_def assert_def isString_def)
next
  assume "typeof v = ''object''"
  then show "toOption v = v" by (simp add: toOption_def)
next
  assume "typeof v \<noteq> ''object''"
  then show "toOption v = JObject [(''value'', v)]" by (simp add: toOption_def)
next
  assume a: "select str values = Inr options"
  then show "options = map toOption values"
    by (auto simp: select_def Let_def split: sum.splits)
  from a have "checkOptions str options = Inr ()"
    by (auto simp: select_def Let_def split: sum.splits)
  then have "\<forall>opt \<in> set options. checkOption str opt = Inr ()"
    by (rule checkOptions_Inr)
  then show \<open>\<forall>opt \<in> set options. property opt ''value'' = JUndefined \<or> isString (property opt ''value'')\<close>
    using checkOption_Inr_value by blast
next
  assume a: \<open>(\<forall>w \<in> set before. checkOption str (toOption w) = Inr ())
        \<and> property (JObject props) ''value'' \<noteq> JUndefined \<and> \<not> isString (property (JObject props) ''value'')\<close>
  then have "checkOptions str (map toOption before) = Inr ()"
    by (intro checkOptions_all_ok) simp
  moreover have "toOption (JObject props) = JObject props"
    by (simp add: toOption_def)
  ultimately show \<open>select str (before @ JObject props # after)
            = Inl (Error (''Values must be strings. Found value "'' @ str (property (JObject props) ''value'')
                     @ ''" of type "'' @ typeof (property (JObject props) ''value'') @ ''"''))\<close>
    using a checkOption_object_value[of props str]
    by (simp add: select_def checkOptions_append)
qed

text \<open>The theorem at the call of the claim, at a call with \<^verbatim>\<open>{index: 2}\<close>, and at a boolean \<^verbatim>\<open>value\<close>.\<close>

theorem select_normalizes_witness:
  \<open>select sampleStr [JString ''b'', JObject [(''label'', JString ''Second'')], JNumber (Num 2)]
     = Inl (Error ''Values must be strings. Found value "2" of type "number"'')
   \<and> toOption (JObject [(''label'', JString ''Second'')]) = JObject [(''label'', JString ''Second'')]
   \<and> toOption (JString ''b'') = JObject [(''value'', JString ''b'')]
   \<and> select sampleStr [JString ''b'', JObject [(''label'', JString ''Second'')], JObject [(''index'', JNumber (Num 2))]]
     = Inr [JObject [(''value'', JString ''b'')], JObject [(''label'', JString ''Second'')], JObject [(''index'', JNumber (Num 2))]]
   \<and> select sampleStr ([JString ''b''] @ JObject [(''value'', JBoolean True)] # [JNumber (Num 2)])
     = Inl (Error ''Values must be strings. Found value "true" of type "boolean"'')\<close>
proof -
  have ok: "select sampleStr [JString ''b'', JObject [(''label'', JString ''Second'')], JObject [(''index'', JNumber (Num 2))]]
     = Inr [JObject [(''value'', JString ''b'')], JObject [(''label'', JString ''Second'')], JObject [(''index'', JNumber (Num 2))]]"
    by (simp add: select_def toOption_def checkOption_def assert_def isString_def isNumber_def)
  have b: "\<forall>w \<in> set [JString ''b'']. checkOption sampleStr (toOption w) = Inr ()"
    by (simp add: toOption_def checkOption_def assert_def isString_def)
  have p: \<open>property (JObject [(''value'', JBoolean True)]) ''value'' \<noteq> JUndefined
           \<and> \<not> isString (property (JObject [(''value'', JBoolean True)]) ''value'')\<close>
    by (simp add: isString_def)
  have t: "typeof (JObject [(''label'', JString ''Second'')]) = ''object''" "typeof (JString ''b'') \<noteq> ''object''"
    by simp_all
  show ?thesis
    using ok b p t
      select_normalizes[of sampleStr "JObject [(''label'', JString ''Second'')]"
         "[JString ''b'', JObject [(''label'', JString ''Second'')], JObject [(''index'', JNumber (Num 2))]]"
         "[JObject [(''value'', JString ''b'')], JObject [(''label'', JString ''Second'')], JObject [(''index'', JNumber (Num 2))]]"
         "[JString ''b'']" "[(''value'', JBoolean True)]" "[JNumber (Num 2)]"]
      select_normalizes[of sampleStr "JString ''b''" "[]" "[]" "[]" "[(''value'', JBoolean True)]" "[]"]
    by (simp add: selectArguments_def)
qed

text \<open>
  The claim as stated fails: the number 2 does not become \<^verbatim>\<open>{index: 2}\<close>, and the call
  is rejected.
\<close>

theorem select_number_counterexample:
  \<open>map toOption selectArguments \<noteq> claimedOptions
   \<and> select sampleStr selectArguments = Inl (Error ''Values must be strings. Found value "2" of type "number"'')\<close>
  by (simp add: selectArguments_def claimedOptions_def toOption_def select_def checkOption_def
        assert_def isString_def)

subsection \<open>The area of a quad\<close>

text \<open>
  \<open>exponentOf x\<close> is the binary exponent of \<open>x\<close>, and rounding leaves a number
  \<open>m * 2 powi j\<close> with \<open>\<bar>m\<bar> < 2 ^ 53\<close> and \<open>- 1074 \<le> j\<close> as it is.
\<close>

lemma log2floor_bounds: "1 \<le> n \<Longrightarrow> 2 ^ log2floor n \<le> n \<and> n < 2 ^ Suc (log2floor n)"
proof (induction n rule: log2floor.induct)
  case (1 n)
  show ?case
  proof (cases "n < 2")
    case True
    with 1(2) have "n = 1" by simp
    then show ?thesis by (simp add: log2floor.simps)
  next
    case False
    then have "1 \<le> n div 2" by simp
    with 1(1) False have ih: "2 ^ log2floor (n div 2) \<le> n div 2" "n div 2 < 2 ^ Suc (log2floor (n div 2))"
      by simp_all
    have l: "log2floor n = Suc (log2floor (n div 2))"
      using False by (simp add: log2floor.simps[of n])
    from ih show ?thesis unfolding l by simp linarith
  qed
qed

lemma exponentOf_le:
  assumes "x \<noteq> 0"
  shows "2 powi exponentOf x \<le> \<bar>x\<bar>"
proof (cases "1 \<le> \<bar>x\<bar>")
  case True
  then have n: "1 \<le> nat \<lfloor>\<bar>x\<bar>\<rfloor>" by linarith
  have "(2::real) powi exponentOf x = 2 ^ log2floor (nat \<lfloor>\<bar>x\<bar>\<rfloor>)"
    using True by (simp add: exponentOf_def)
  also have "\<dots> = real (2 ^ log2floor (nat \<lfloor>\<bar>x\<bar>\<rfloor>))" by simp
  also have "\<dots> \<le> real (nat \<lfloor>\<bar>x\<bar>\<rfloor>)"
    using log2floor_bounds[OF n] by (intro of_nat_mono) simp
  also have "\<dots> \<le> \<bar>x\<bar>" using True by linarith
  finally show ?thesis .
next
  case False
  define y where "y = 1 / \<bar>x\<bar>"
  have y: "1 < y" using False assms by (simp add: y_def)
  define m where "m = nat \<lceil>y\<rceil>"
  have m2: "2 \<le> m" using y unfolding m_def by linarith
  then have m1: "1 \<le> m - 1" by simp
  define k where "k = Suc (log2floor (m - 1))"
  have "m - 1 < 2 ^ k" using log2floor_bounds[OF m1] by (simp add: k_def)
  then have "m \<le> 2 ^ k" by simp
  then have "real m \<le> 2 ^ k" by (metis of_nat_le_iff of_nat_numeral of_nat_power)
  moreover have "y \<le> real m" unfolding m_def using y by linarith
  ultimately have "y \<le> 2 ^ k" by linarith
  then have "1 / 2 ^ k \<le> \<bar>x\<bar>"
    using assms unfolding y_def by (simp add: field_simps)
  moreover have "(2::real) powi exponentOf x = 1 / 2 ^ k"
  proof -
    have "exponentOf x = - int k"
      using False by (simp add: exponentOf_def k_def m_def y_def)
    moreover have "(2::real) powi (- int k) = inverse (2 powi int k)"
      by (rule power_int_minus)
    ultimately show ?thesis by (simp add: inverse_eq_divide)
  qed
  ultimately show ?thesis by simp
qed

lemma exponentOf_less:
  assumes "x \<noteq> 0"
  shows "\<bar>x\<bar> < 2 powi (exponentOf x + 1)"
proof (cases "1 \<le> \<bar>x\<bar>")
  case True
  define n where "n = nat \<lfloor>\<bar>x\<bar>\<rfloor>"
  have n: "1 \<le> n" using True unfolding n_def by linarith
  have "n < 2 ^ Suc (log2floor n)" using log2floor_bounds[OF n] by simp
  then have "Suc n \<le> 2 ^ Suc (log2floor n)" by simp
  then have "real (Suc n) \<le> 2 ^ Suc (log2floor n)"
    by (metis of_nat_le_iff of_nat_numeral of_nat_power)
  moreover have "\<bar>x\<bar> < real (Suc n)" unfolding n_def by linarith
  ultimately have "\<bar>x\<bar> < 2 ^ Suc (log2floor n)" by linarith
  moreover have "exponentOf x + 1 = int (Suc (log2floor n))"
    using True by (simp add: exponentOf_def n_def)
  ultimately show ?thesis by (simp only: power_int_of_nat)
next
  case False
  define y where "y = 1 / \<bar>x\<bar>"
  have y: "1 < y" using False assms by (simp add: y_def)
  define m where "m = nat \<lceil>y\<rceil>"
  have m2: "2 \<le> m" using y unfolding m_def by linarith
  then have m1: "1 \<le> m - 1" by simp
  define L where "L = log2floor (m - 1)"
  have "2 ^ L \<le> m - 1" using log2floor_bounds[OF m1] by (simp add: L_def)
  then have "real (2 ^ L) \<le> real (m - 1)" by (simp only: of_nat_le_iff)
  then have "2 ^ L \<le> real (m - 1)" by simp
  moreover have "real (m - 1) < y" using y m2 unfolding m_def by linarith
  ultimately have "2 ^ L < y" by linarith
  then have "\<bar>x\<bar> < 1 / 2 ^ L"
    using assms unfolding y_def by (simp add: field_simps)
  moreover have "(2::real) powi (exponentOf x + 1) = 1 / 2 ^ L"
  proof -
    have "exponentOf x + 1 = - int L"
      using False by (simp add: exponentOf_def L_def m_def y_def)
    moreover have "(2::real) powi (- int L) = inverse (2 powi int L)"
      by (rule power_int_minus)
    ultimately show ?thesis by (simp add: inverse_eq_divide)
  qed
  ultimately show ?thesis by simp
qed

text \<open>
  The rounding at the decimal \<open>0.1\<close>, whose double is \<open>3602879701896397 / 2 ^ 55\<close>, and at
  two integers above \<open>2 ^ 53\<close>, the first a tie.
\<close>

lemma roundDouble_samples:
  "roundDouble (1 / 10) = 3602879701896397 / 2 ^ 55
   \<and> roundDouble 9007199254740993 = 9007199254740992
   \<and> roundDouble 9007199254740995 = 9007199254740996"
  by (simp add: roundDouble_def exponentOf_def log2floor.simps roundHalfEven_def Let_def)

lemma roundHalfEven_of_int: "roundHalfEven (of_int z) = z"
  by (simp add: roundHalfEven_def)

lemma powi_less_imp: "(2::real) powi a < 2 powi b \<Longrightarrow> a < b"
  using power_int_increasing[of b a "2::real"] by (cases "a < b") auto

lemma roundDouble_dyadic:
  assumes d: "dyadic N j x" and N: "N < 2 ^ 53" and j: "- 1074 \<le> j"
  shows "roundDouble x = x"
proof (cases "x = 0")
  case True then show ?thesis by (simp add: roundDouble_def)
next
  case False
  obtain m :: int where m: "\<bar>m\<bar> \<le> N" "x = of_int m * 2 powi j"
    using d unfolding dyadic_def by blast
  define E where "E = max (exponentOf x) (- 1022)"
  have "\<bar>x\<bar> = of_int \<bar>m\<bar> * 2 powi j" by (simp add: m(2) abs_mult)
  also have "\<dots> < 2 ^ 53 * 2 powi j"
  proof -
    have "\<bar>m\<bar> < 2 ^ 53" using m(1) N by linarith
    then have "(of_int \<bar>m\<bar> :: real) < of_int (2 ^ 53)" by (simp only: of_int_less_iff)
    then show ?thesis by simp
  qed
  also have "\<dots> = 2 powi (53 + j)" by (simp add: power_int_add)
  finally have "(2::real) powi exponentOf x < 2 powi (53 + j)"
    using exponentOf_le[OF False] by linarith
  then have "exponentOf x < 53 + j" by (rule powi_less_imp)
  then have Ej: "E - 52 \<le> j" using j by (simp add: E_def)
  define t where "t = nat (j - (E - 52))"
  have "(2::real) powi j = 2 powi (E - 52) * 2 ^ t"
  proof -
    have "j = (E - 52) + int t" using Ej by (simp add: t_def)
    then have "(2::real) powi j = 2 powi ((E - 52) + int t)" by simp
    then show ?thesis by (simp add: power_int_add)
  qed
  then have q: "x / 2 powi (E - 52) = of_int (m * 2 ^ t)"
    by (simp add: m(2))
  have "roundDouble x = of_int (roundHalfEven (x / 2 powi (E - 52))) * 2 powi (E - 52)"
    using False by (simp add: roundDouble_def Let_def E_def)
  also have "\<dots> = of_int (m * 2 ^ t) * 2 powi (E - 52)"
    unfolding q roundHalfEven_of_int ..
  also have "\<dots> = x" using q by (simp add: field_simps)
  finally show ?thesis .
qed

lemma dyadic_0: "0 \<le> N \<Longrightarrow> dyadic N j 0"
  unfolding dyadic_def by (intro exI[of _ 0]) simp

lemma dyadic_mult: "dyadic A j x \<Longrightarrow> dyadic B j y \<Longrightarrow> dyadic (A * B) (j + j) (x * y)"
proof -
  assume "dyadic A j x" "dyadic B j y"
  then obtain m n :: int where m: "\<bar>m\<bar> \<le> A" "x = of_int m * 2 powi j"
    and n: "\<bar>n\<bar> \<le> B" "y = of_int n * 2 powi j"
    unfolding dyadic_def by blast
  have "\<bar>m * n\<bar> \<le> A * B" using m(1) n(1) by (simp add: abs_mult mult_mono)
  moreover have "x * y = of_int (m * n) * 2 powi (j + j)"
  proof -
    have p: "(2::real) powi (j + j) = 2 powi j * 2 powi j"
      by (rule power_int_add) simp
    show ?thesis unfolding p m(2) n(2) by simp
  qed
  ultimately show ?thesis unfolding dyadic_def by blast
qed

lemma dyadic_add: "dyadic A j x \<Longrightarrow> dyadic B j y \<Longrightarrow> dyadic (A + B) j (x + y)"
proof -
  assume "dyadic A j x" "dyadic B j y"
  then obtain m n :: int where m: "\<bar>m\<bar> \<le> A" "x = of_int m * 2 powi j"
    and n: "\<bar>n\<bar> \<le> B" "y = of_int n * 2 powi j"
    unfolding dyadic_def by blast
  have "\<bar>m + n\<bar> \<le> A + B" using m(1) n(1) by linarith
  moreover have "x + y = of_int (m + n) * 2 powi j"
    by (simp add: m(2) n(2) algebra_simps)
  ultimately show ?thesis unfolding dyadic_def by blast
qed

lemma dyadic_diff: "dyadic A j x \<Longrightarrow> dyadic B j y \<Longrightarrow> dyadic (A + B) j (x - y)"
proof -
  assume "dyadic A j x" "dyadic B j y"
  then obtain m n :: int where m: "\<bar>m\<bar> \<le> A" "x = of_int m * 2 powi j"
    and n: "\<bar>n\<bar> \<le> B" "y = of_int n * 2 powi j"
    unfolding dyadic_def by blast
  have "\<bar>m - n\<bar> \<le> A + B" using m(1) n(1) by linarith
  moreover have "x - y = of_int (m - n) * 2 powi j"
    by (simp add: m(2) n(2) algebra_simps)
  ultimately show ?thesis unfolding dyadic_def by blast
qed

lemma dyadic_half: "dyadic A j x \<Longrightarrow> dyadic A (j - 1) (x / 2)"
proof -
  assume "dyadic A j x"
  then obtain m :: int where m: "\<bar>m\<bar> \<le> A" "x = of_int m * 2 powi j"
    unfolding dyadic_def by blast
  have "x / 2 = of_int m * 2 powi (j - 1)"
    by (simp add: m(2) power_int_diff)
  with m(1) show ?thesis unfolding dyadic_def by blast
qed

lemma dyadic_mono: "dyadic A j x \<Longrightarrow> A \<le> B \<Longrightarrow> dyadic B j x"
proof -
  assume "dyadic A j x" and AB: "A \<le> B"
  then obtain m :: int where m: "\<bar>m\<bar> \<le> A" "x = of_int m * 2 powi j"
    unfolding dyadic_def by blast
  from m(1) AB have "\<bar>m\<bar> \<le> B" by linarith
  with m(2) show ?thesis unfolding dyadic_def by blast
qed

text \<open>On a grid no step of \<^verbatim>\<open>computeQuadArea\<close> rounds.\<close>

lemma directedArea_grid:
  assumes p: "onGrid k p" and q: "onGrid k q" and k: "- 536 \<le> k"
  shows "directedArea p q = shoelaceTerm p q \<and> dyadic (2 ^ 49) (k + k - 1) (shoelaceTerm p q)"
proof -
  define J where "J = k + k"
  have J: "- 1074 \<le> J" "- 1074 \<le> J - 1" using k by (simp_all add: J_def)
  have xp: "dyadic (2 ^ 24) k (px p)" and yp: "dyadic (2 ^ 24) k (py p)"
    and xq: "dyadic (2 ^ 24) k (px q)" and yq: "dyadic (2 ^ 24) k (py q)"
    using p q by (simp_all add: onGrid_def)
  have a: "dyadic (2 ^ 24 * 2 ^ 24) J (px p * py q)"
    unfolding J_def by (rule dyadic_mult[OF xp yq])
  have b: "dyadic (2 ^ 24 * 2 ^ 24) J (px q * py p)"
    unfolding J_def by (rule dyadic_mult[OF xq yp])
  have ra: "roundDouble (px p * py q) = px p * py q"
    by (rule roundDouble_dyadic[OF a _ J(1)]) simp
  have rb: "roundDouble (px q * py p) = px q * py p"
    by (rule roundDouble_dyadic[OF b _ J(1)]) simp
  have c: "dyadic (2 ^ 24 * 2 ^ 24 + 2 ^ 24 * 2 ^ 24) J (px p * py q - px q * py p)"
    by (rule dyadic_diff[OF a b])
  have rc: "roundDouble (px p * py q - px q * py p) = px p * py q - px q * py p"
    by (rule roundDouble_dyadic[OF c _ J(1)]) simp
  have d: "dyadic (2 ^ 24 * 2 ^ 24 + 2 ^ 24 * 2 ^ 24) (J - 1) ((px p * py q - px q * py p) / 2)"
    by (rule dyadic_half[OF c])
  have rd: "roundDouble ((px p * py q - px q * py p) / 2) = (px p * py q - px q * py p) / 2"
    by (rule roundDouble_dyadic[OF d _ J(2)]) simp
  have "directedArea p q = shoelaceTerm p q"
    unfolding directedArea_def shoelaceTerm_def ra rb rc rd ..
  moreover have "dyadic (2 ^ 49) (J - 1) (shoelaceTerm p q)"
    unfolding shoelaceTerm_def by (rule dyadic_mono[OF d]) simp
  ultimately show ?thesis by (simp only: J_def) 
qed

lemma area_4:
  "computeQuadArea [a, b, c, d] =
     \<bar>roundDouble (roundDouble (roundDouble (roundDouble (directedArea a b) + directedArea b c)
        + directedArea c d) + directedArea d a)\<bar>"
  by (simp add: computeQuadArea_def)

lemma edgeSum_4:
  "edgeSum [a, b, c, d] = shoelaceTerm a b + shoelaceTerm b c + shoelaceTerm c d + shoelaceTerm d a"
  by (simp add: edgeSum_def)

lemma computeQuadArea_grid:
  assumes a: "onGrid k a" and b: "onGrid k b" and c: "onGrid k c" and d: "onGrid k d"
    and k: "- 536 \<le> k"
  shows "computeQuadArea [a, b, c, d] = \<bar>edgeSum [a, b, c, d]\<bar>"
proof -
  define J where "J = k + k - 1"
  have J: "- 1074 \<le> J" using k by (simp add: J_def)
  note ab = directedArea_grid[OF a b k, folded J_def]
  note bc = directedArea_grid[OF b c k, folded J_def]
  note cd = directedArea_grid[OF c d k, folded J_def]
  note da = directedArea_grid[OF d a k, folded J_def]
  have d1: "dyadic (2 ^ 49) J (shoelaceTerm a b)" using ab ..
  have r1: "roundDouble (shoelaceTerm a b) = shoelaceTerm a b"
    by (rule roundDouble_dyadic[OF d1 _ J]) simp
  have d2: "dyadic (2 ^ 49 + 2 ^ 49) J (shoelaceTerm a b + shoelaceTerm b c)"
    using bc by (intro dyadic_add[OF d1]) simp
  have r2: "roundDouble (shoelaceTerm a b + shoelaceTerm b c) = shoelaceTerm a b + shoelaceTerm b c"
    by (rule roundDouble_dyadic[OF d2 _ J]) simp
  have d3: "dyadic (2 ^ 49 + 2 ^ 49 + 2 ^ 49) J (shoelaceTerm a b + shoelaceTerm b c + shoelaceTerm c d)"
    using cd by (intro dyadic_add[OF d2]) simp
  have r3: "roundDouble (shoelaceTerm a b + shoelaceTerm b c + shoelaceTerm c d)
            = shoelaceTerm a b + shoelaceTerm b c + shoelaceTerm c d"
    by (rule roundDouble_dyadic[OF d3 _ J]) simp
  have d4: "dyadic (2 ^ 49 + 2 ^ 49 + 2 ^ 49 + 2 ^ 49) J
              (shoelaceTerm a b + shoelaceTerm b c + shoelaceTerm c d + shoelaceTerm d a)"
    using da by (intro dyadic_add[OF d3]) simp
  have r4: "roundDouble (shoelaceTerm a b + shoelaceTerm b c + shoelaceTerm c d + shoelaceTerm d a)
            = shoelaceTerm a b + shoelaceTerm b c + shoelaceTerm c d + shoelaceTerm d a"
    by (rule roundDouble_dyadic[OF d4 _ J]) simp
  have e: "directedArea a b = shoelaceTerm a b" "directedArea b c = shoelaceTerm b c"
    "directedArea c d = shoelaceTerm c d" "directedArea d a = shoelaceTerm d a"
    using ab bc cd da by simp_all
  show ?thesis
    unfolding area_4 edgeSum_4 e r1 r2 r3 r4 ..
qed

lemma rotate_4_cases:
  "rotate n [a, b, c, d] \<in> {[a, b, c, d], [b, c, d, a], [c, d, a, b], [d, a, b, c]}"
proof -
  have m: "rotate n [a, b, c, d] = rotate (n mod 4) [a, b, c, d]"
    using rotate_conv_mod[of n "[a, b, c, d]"] by simp
  have "n mod 4 = 0 \<or> n mod 4 = Suc 0 \<or> n mod 4 = Suc (Suc 0) \<or> n mod 4 = Suc (Suc (Suc 0))"
    by presburger
  then show ?thesis
    unfolding m by (elim disjE) simp_all
qed

text \<open>The exact shoelace sum: rotations, diagonals, collinear points.\<close>

lemma sum_shift_mod: "(\<Sum>i<Suc m. (g :: nat \<Rightarrow> real) ((i + 1) mod Suc m)) = (\<Sum>j<Suc m. g j)"
proof -
  have "(\<Sum>i<Suc m. g ((i + 1) mod Suc m)) = (\<Sum>i<m. g ((i + 1) mod Suc m)) + g 0"
    by simp
  also have "(\<Sum>i<m. g ((i + 1) mod Suc m)) = (\<Sum>i<m. g (Suc i))"
    by (rule sum.cong) simp_all
  finally have "(\<Sum>i<Suc m. g ((i + 1) mod Suc m)) = g 0 + (\<Sum>i<m. g (Suc i))"
    by (simp only: add.commute)
  then show ?thesis by (simp only: sum.lessThan_Suc_shift)
qed

lemma edgeSum_rotate1: "edgeSum (rotate1 quad) = edgeSum quad"
proof (cases "quad = []")
  case True then show ?thesis by simp
next
  case False
  then obtain m where n: "length quad = Suc m" by (cases quad) auto
  define g where "g = (\<lambda>j. shoelaceTerm (quad ! j) (quad ! ((j + 1) mod Suc m)))"
  have "\<And>i. i < Suc m \<Longrightarrow> rotate1 quad ! i = quad ! ((i + 1) mod Suc m)"
    using nth_rotate1[of _ quad] n by simp
  then have "edgeSum (rotate1 quad) = (\<Sum>i<Suc m. g ((i + 1) mod Suc m))"
    unfolding edgeSum_def g_def length_rotate1 n
    by (intro sum.cong refl) simp
  also have "\<dots> = (\<Sum>j<Suc m. g j)"
    by (rule sum_shift_mod)
  finally show ?thesis by (simp add: edgeSum_def g_def n)
qed

lemma edgeSum_rotate: "edgeSum (rotate k quad) = edgeSum quad"
  by (induction k) (simp_all add: edgeSum_rotate1)

lemma edgeSum_diagonals:
  "2 * edgeSum [a, b, c, d] = (px c - px a) * (py d - py b) - (px d - px b) * (py c - py a)"
proof -
  have "2 * shoelaceTerm p q = px p * py q - px q * py p" for p q
    by (simp add: shoelaceTerm_def)
  then have "2 * edgeSum [a, b, c, d] =
      (px a * py b - px b * py a) + (px b * py c - px c * py b)
    + (px c * py d - px d * py c) + (px d * py a - px a * py d)"
    by (simp add: edgeSum_4 distrib_left)
  then show ?thesis by (simp add: algebra_simps)
qed

lemma parallel_scalar:
  fixes ux uy vx vy :: real
  assumes "ux * vy - vx * uy = 0" and "ux \<noteq> 0 \<or> uy \<noteq> 0"
  obtains k where "vx = k * ux" and "vy = k * uy"
proof (cases "ux = 0")
  case False
  have "vx = (vx / ux) * ux" using False by simp
  moreover have "vy = (vx / ux) * uy" using False assms(1) by (simp add: field_simps)
  ultimately show ?thesis using that by blast
next
  case True
  then have uy: "uy \<noteq> 0" using assms(2) by simp
  have "vy = (vy / uy) * uy" using uy by simp
  moreover have "vx = (vy / uy) * ux" using uy True assms(1) by (simp add: field_simps)
  ultimately show ?thesis using that by blast
qed

lemma parallel_diagonals_cross:
  assumes S: "(px c - px a) * (py d - py b) - (px d - px b) * (py c - py a) = 0"
  shows "segmentsMeet a b c d \<or> segmentsMeet b c d a"
proof (cases "px c - px a = 0 \<and> py c - py a = 0")
  case True
  then have "px a + 0 * (px b - px a) = px c + 0 * (px d - px c)
           \<and> py a + 0 * (py b - py a) = py c + 0 * (py d - py c)"
    by simp
  then have "segmentsMeet a b c d"
    unfolding segmentsMeet_def by (intro exI[of _ 0]) simp
  then show ?thesis ..
next
  case False
  then obtain k where kx: "px d - px b = k * (px c - px a)" and ky: "py d - py b = k * (py c - py a)"
    using parallel_scalar[OF S] by blast
  have dx: "px d = px b + k * (px c - px a)" and dy: "py d = py b + k * (py c - py a)"
    using kx ky by simp_all
  show ?thesis
  proof (cases "0 \<le> k")
    case True
    define s where "s = k / (1 + k)"
    have k1: "1 + k \<noteq> 0" using True by simp
    have s01: "0 \<le> s" "s \<le> 1" using True by (simp_all add: s_def)
    have sk: "s * (1 + k) = k" using k1 by (simp add: s_def)
    have "px b + s * (px c - px b) - (px d + s * (px a - px d)) = (px c - px a) * (s * (1 + k) - k)"
      unfolding dx by (simp add: algebra_simps)
    then have ex: "px b + s * (px c - px b) = px d + s * (px a - px d)" using sk by simp
    have "py b + s * (py c - py b) - (py d + s * (py a - py d)) = (py c - py a) * (s * (1 + k) - k)"
      unfolding dy by (simp add: algebra_simps)
    then have ey: "py b + s * (py c - py b) = py d + s * (py a - py d)" using sk by simp
    have "segmentsMeet b c d a"
      unfolding segmentsMeet_def using s01 ex ey by blast
    then show ?thesis ..
  next
    case False
    define s where "s = 1 / (1 - k)"
    have k1: "1 - k \<noteq> 0" using False by simp
    have s01: "0 \<le> s" "s \<le> 1" using False by (simp_all add: s_def)
    have sk: "s * (1 - k) = 1" using k1 by (simp add: s_def)
    have "px a + s * (px b - px a) - (px c + s * (px d - px c)) = (px c - px a) * (s * (1 - k) - 1)"
      unfolding dx by (simp add: algebra_simps)
    then have ex: "px a + s * (px b - px a) = px c + s * (px d - px c)" using sk by simp
    have "py a + s * (py b - py a) - (py c + s * (py d - py c)) = (py c - py a) * (s * (1 - k) - 1)"
      unfolding dy by (simp add: algebra_simps)
    then have ey: "py a + s * (py b - py a) = py c + s * (py d - py c)" using sk by simp
    have "segmentsMeet a b c d"
      unfolding segmentsMeet_def using s01 ex ey by blast
    then show ?thesis ..
  qed
qed

lemma collinear_edgeSum:
  assumes "collinearPoints [a, b, c, d]"
  shows "edgeSum [a, b, c, d] = 0"
proof -
  obtain u v w where uv: "u \<noteq> 0 \<or> v \<noteq> 0"
    and ea: "u * px a + v * py a = w" and eb: "u * px b + v * py b = w"
    and ec: "u * px c + v * py c = w" and ed: "u * px d + v * py d = w"
    using assms unfolding collinearPoints_def by auto
  define S where "S = (px c - px a) * (py d - py b) - (px d - px b) * (py c - py a)"
  have xs: "u * (px c - px a) = - v * (py c - py a)" "u * (px d - px b) = - v * (py d - py b)"
    using ea eb ec ed by (simp_all add: algebra_simps)
  have "u * S = (u * (px c - px a)) * (py d - py b) - (u * (px d - px b)) * (py c - py a)"
    by (simp add: S_def algebra_simps)
  also have "\<dots> = 0" unfolding xs by (simp add: algebra_simps)
  finally have uS: "u * S = 0" .
  have ys: "v * (py d - py b) = - u * (px d - px b)" "v * (py c - py a) = - u * (px c - px a)"
    using xs by simp_all
  have "v * S = (px c - px a) * (v * (py d - py b)) - (px d - px b) * (v * (py c - py a))"
    by (simp add: S_def algebra_simps)
  also have "\<dots> = 0" unfolding ys by (simp add: algebra_simps)
  finally have vS: "v * S = 0" .
  from uS vS uv have "S = 0" by auto
  then show ?thesis using edgeSum_diagonals[of a b c d] by (simp add: S_def)
qed

lemma simpleQuad_edgeSum:
  assumes "simpleQuad a b c d"
  shows "edgeSum [a, b, c, d] \<noteq> 0"
proof
  assume "edgeSum [a, b, c, d] = 0"
  then have "(px c - px a) * (py d - py b) - (px d - px b) * (py c - py a) = 0"
    using edgeSum_diagonals[of a b c d] by simp
  then have "segmentsMeet a b c d \<or> segmentsMeet b c d a"
    by (rule parallel_diagonals_cross)
  with assms show False by (simp add: simpleQuad_def)
qed

lemma roundDouble_0: "roundDouble 0 = 0"
  by (simp add: roundDouble_def)

lemma roundDouble_half: "roundDouble (1 / 2) = 1 / 2"
  by (simp add: roundDouble_def exponentOf_def log2floor.simps roundHalfEven_def Let_def)

lemma roundDouble_1: "roundDouble 1 = 1"
  by (simp add: roundDouble_def exponentOf_def log2floor.simps roundHalfEven_def Let_def)

text \<open>
  The rectangle with the corners \<open>(0.1, 0.1)\<close>, \<open>(0.7, 0.1)\<close>, \<open>(0.7, 0.3)\<close>, \<open>(0.1, 0.3)\<close>,
  each decimal read as the nearest double: the area is the double nearest
  \<open>0.12000000000000001\<close>, and after one rotation of the point order the double nearest
  \<open>0.12\<close>.
\<close>

lemma computeQuadArea_decimal_rectangle:
  "computeQuadArea
     [\<lparr>px = 3602879701896397 / 2 ^ 55, py = 3602879701896397 / 2 ^ 55\<rparr>,
      \<lparr>px = 3152519739159347 / 2 ^ 52, py = 3602879701896397 / 2 ^ 55\<rparr>,
      \<lparr>px = 3152519739159347 / 2 ^ 52, py = 5404319552844595 / 2 ^ 54\<rparr>,
      \<lparr>px = 3602879701896397 / 2 ^ 55, py = 5404319552844595 / 2 ^ 54\<rparr>]
     = 8646911284551353 / 2 ^ 56
   \<and> computeQuadArea
     [\<lparr>px = 3152519739159347 / 2 ^ 52, py = 3602879701896397 / 2 ^ 55\<rparr>,
      \<lparr>px = 3152519739159347 / 2 ^ 52, py = 5404319552844595 / 2 ^ 54\<rparr>,
      \<lparr>px = 3602879701896397 / 2 ^ 55, py = 5404319552844595 / 2 ^ 54\<rparr>,
      \<lparr>px = 3602879701896397 / 2 ^ 55, py = 3602879701896397 / 2 ^ 55\<rparr>]
     = 1080863910568919 / 2 ^ 53"
  by (simp add: area_4 directedArea_def roundDouble_def exponentOf_def log2floor.simps
        roundHalfEven_def Let_def)

text \<open>
  Claim C7, as the code computes it. In binary64 arithmetic \<^verbatim>\<open>computeQuadArea\<close> has none
  of the three general properties: four points of one line are given the area 2; the
  unit square moved to \<open>(2 ^ 27, 2 ^ 27)\<close>, a simple quadrilateral, is given the area 0;
  and a quad and its rotation by one place are given the areas \<open>2 ^ 52 + 1\<close> and
  \<open>2 ^ 52\<close>.
\<close>

theorem computeQuadArea_rounding_counterexample:
  "collinearPoints steepLine \<and> computeQuadArea steepLine = 2
   \<and> simpleQuad (farSquare ! 0) (farSquare ! 1) (farSquare ! 2) (farSquare ! 3)
   \<and> computeQuadArea farSquare = 0
   \<and> computeQuadArea lopsided = 4503599627370497
   \<and> computeQuadArea (rotate 1 lopsided) = 4503599627370496"
proof (intro conjI)
  show "collinearPoints steepLine"
    unfolding collinearPoints_def steepLine_def
    by (rule exI[of _ 1], rule exI[of _ "-1"], rule exI[of _ "-1"]) simp
  show "computeQuadArea steepLine = 2"
    by (simp add: steepLine_def area_4 directedArea_def roundDouble_def exponentOf_def
          log2floor.simps roundHalfEven_def Let_def)
  show "simpleQuad (farSquare ! 0) (farSquare ! 1) (farSquare ! 2) (farSquare ! 3)"
    by (simp add: farSquare_def simpleQuad_def segmentsMeet_def)
  show "computeQuadArea farSquare = 0"
    by (simp add: farSquare_def area_4 directedArea_def roundDouble_def exponentOf_def
          log2floor.simps roundHalfEven_def Let_def)
  show "computeQuadArea lopsided = 4503599627370497"
    by (simp add: lopsided_def area_4 directedArea_def roundDouble_def exponentOf_def
          log2floor.simps roundHalfEven_def Let_def)
  show "computeQuadArea (rotate 1 lopsided) = 4503599627370496"
    by (simp add: lopsided_def area_4 directedArea_def roundDouble_def exponentOf_def
          log2floor.simps roundHalfEven_def Let_def)
qed

text \<open>
  Claim C7, amended. \<^verbatim>\<open>computeQuadArea\<close> gives the unit square
  \<open>(0,0), (1,0), (1,1), (0,1)\<close> the area 1. For four points of one grid, that is, with
  all coordinates of the form \<open>m * 2 powi k\<close> for integers \<open>m\<close> of magnitude at most
  \<open>2 ^ 24\<close> and one \<open>k\<close> between \<open>- 536\<close> and \<open>486\<close>, it returns the same value for
  every rotation of the point order, it returns 0 when the points are collinear, and it
  returns a positive value when they form a simple quadrilateral, that is, when neither
  pair of opposite edges meets (such a quadrilateral is never degenerate: its points are
  not on one line).
\<close>

theorem computeQuadArea_on_grid:
  "(- 536 \<le> k \<and> k \<le> 486 \<and> onGrid k a \<and> onGrid k b \<and> onGrid k c \<and> onGrid k d \<longrightarrow>
      computeQuadArea (rotate n [a, b, c, d]) = computeQuadArea [a, b, c, d]
      \<and> (collinearPoints [a, b, c, d] \<longrightarrow> computeQuadArea [a, b, c, d] = 0)
      \<and> (simpleQuad a b c d \<longrightarrow> 0 < computeQuadArea [a, b, c, d]))
   \<and> computeQuadArea [\<lparr>px = 0, py = 0\<rparr>, \<lparr>px = 1, py = 0\<rparr>, \<lparr>px = 1, py = 1\<rparr>, \<lparr>px = 0, py = 1\<rparr>] = 1
   \<and> (simpleQuad a b c d \<longrightarrow> \<not> collinearPoints [a, b, c, d])"
proof (intro conjI impI)
  assume h: "- 536 \<le> k \<and> k \<le> 486 \<and> onGrid k a \<and> onGrid k b \<and> onGrid k c \<and> onGrid k d"
  then have k: "- 536 \<le> k" and a: "onGrid k a" and b: "onGrid k b" and c: "onGrid k c" and d: "onGrid k d"
    by simp_all
  have e: "computeQuadArea [a, b, c, d] = \<bar>edgeSum [a, b, c, d]\<bar>"
    by (rule computeQuadArea_grid[OF a b c d k])
  have "computeQuadArea (rotate n [a, b, c, d]) = \<bar>edgeSum (rotate n [a, b, c, d])\<bar>"
    using rotate_4_cases[of n a b c d]
      computeQuadArea_grid[OF a b c d k] computeQuadArea_grid[OF b c d a k]
      computeQuadArea_grid[OF c d a b k] computeQuadArea_grid[OF d a b c k]
    by auto
  then show "computeQuadArea (rotate n [a, b, c, d]) = computeQuadArea [a, b, c, d]"
    by (simp add: e edgeSum_rotate)
  {
    assume "collinearPoints [a, b, c, d]"
    then show "computeQuadArea [a, b, c, d] = 0"
      by (simp add: e collinear_edgeSum)
  }
  {
    assume "simpleQuad a b c d"
    then show "0 < computeQuadArea [a, b, c, d]"
      by (simp add: e simpleQuad_edgeSum)
  }
next
  show "computeQuadArea [\<lparr>px = 0, py = 0\<rparr>, \<lparr>px = 1, py = 0\<rparr>, \<lparr>px = 1, py = 1\<rparr>, \<lparr>px = 0, py = 1\<rparr>] = 1"
    by (simp add: area_4 directedArea_def roundDouble_0 roundDouble_half roundDouble_1)
next
  assume simple: "simpleQuad a b c d"
  show "\<not> collinearPoints [a, b, c, d]"
    using simpleQuad_edgeSum[OF simple] collinear_edgeSum[of a b c d] by blast
qed

text \<open>
  The theorem on the grid of the integers at a 3 by 2 rectangle, rotated once, and at
  four points of the line \<open>x = y\<close>.
\<close>

lemma onGrid_int: "\<bar>x\<bar> \<le> 2 ^ 24 \<Longrightarrow> \<bar>y\<bar> \<le> 2 ^ 24 \<Longrightarrow> onGrid 0 \<lparr>px = of_int x, py = of_int y\<rparr>"
  unfolding onGrid_def dyadic_def by auto

theorem computeQuadArea_on_grid_witness:
  "onGrid 0 \<lparr>px = 0, py = 0\<rparr> \<and> onGrid 0 \<lparr>px = 3, py = 0\<rparr> \<and> onGrid 0 \<lparr>px = 3, py = 2\<rparr>
   \<and> onGrid 0 \<lparr>px = 0, py = 2\<rparr> \<and> onGrid 0 \<lparr>px = 1, py = 1\<rparr> \<and> onGrid 0 \<lparr>px = 3, py = 3\<rparr>
   \<and> onGrid 0 \<lparr>px = 2, py = 2\<rparr>
   \<and> computeQuadArea (rotate 1 [\<lparr>px = 0, py = 0\<rparr>, \<lparr>px = 3, py = 0\<rparr>, \<lparr>px = 3, py = 2\<rparr>, \<lparr>px = 0, py = 2\<rparr>])
     = computeQuadArea [\<lparr>px = 0, py = 0\<rparr>, \<lparr>px = 3, py = 0\<rparr>, \<lparr>px = 3, py = 2\<rparr>, \<lparr>px = 0, py = 2\<rparr>]
   \<and> collinearPoints [\<lparr>px = 0, py = 0\<rparr>, \<lparr>px = 1, py = 1\<rparr>, \<lparr>px = 3, py = 3\<rparr>, \<lparr>px = 2, py = 2\<rparr>]
   \<and> computeQuadArea [\<lparr>px = 0, py = 0\<rparr>, \<lparr>px = 1, py = 1\<rparr>, \<lparr>px = 3, py = 3\<rparr>, \<lparr>px = 2, py = 2\<rparr>] = 0
   \<and> simpleQuad \<lparr>px = 0, py = 0\<rparr> \<lparr>px = 3, py = 0\<rparr> \<lparr>px = 3, py = 2\<rparr> \<lparr>px = 0, py = 2\<rparr>
   \<and> 0 < computeQuadArea [\<lparr>px = 0, py = 0\<rparr>, \<lparr>px = 3, py = 0\<rparr>, \<lparr>px = 3, py = 2\<rparr>, \<lparr>px = 0, py = 2\<rparr>]"
proof -
  have g: "onGrid 0 \<lparr>px = 0, py = 0\<rparr>" "onGrid 0 \<lparr>px = 3, py = 0\<rparr>" "onGrid 0 \<lparr>px = 3, py = 2\<rparr>"
    "onGrid 0 \<lparr>px = 0, py = 2\<rparr>" "onGrid 0 \<lparr>px = 1, py = 1\<rparr>" "onGrid 0 \<lparr>px = 3, py = 3\<rparr>"
    "onGrid 0 \<lparr>px = 2, py = 2\<rparr>"
    using onGrid_int[of 0 0] onGrid_int[of 3 0] onGrid_int[of 3 2] onGrid_int[of 0 2]
      onGrid_int[of 1 1] onGrid_int[of 3 3] onGrid_int[of 2 2]
    by simp_all
  have col: "collinearPoints [\<lparr>px = 0, py = 0\<rparr>, \<lparr>px = 1, py = 1\<rparr>, \<lparr>px = 3, py = 3\<rparr>, \<lparr>px = 2, py = 2\<rparr>]"
    unfolding collinearPoints_def
    by (rule exI[of _ 1], rule exI[of _ "-1"], rule exI[of _ 0]) simp
  have simple: "simpleQuad \<lparr>px = 0, py = 0\<rparr> \<lparr>px = 3, py = 0\<rparr> \<lparr>px = 3, py = 2\<rparr> \<lparr>px = 0, py = 2\<rparr>"
    by (simp add: simpleQuad_def segmentsMeet_def)
  show ?thesis
    using g col simple
      computeQuadArea_on_grid[of 0 "\<lparr>px = 0, py = 0\<rparr>" "\<lparr>px = 1, py = 1\<rparr>" "\<lparr>px = 3, py = 3\<rparr>" "\<lparr>px = 2, py = 2\<rparr>" 0]
      computeQuadArea_on_grid[of 0 "\<lparr>px = 0, py = 0\<rparr>" "\<lparr>px = 3, py = 0\<rparr>" "\<lparr>px = 3, py = 2\<rparr>" "\<lparr>px = 0, py = 2\<rparr>" 1]
    by simp
qed

subsection \<open>The clickable point\<close>

lemma middlePoint_4: "middlePoint [a, b, c, d] = centroid [a, b, c, d]"
  by (simp add: middlePoint_def centroid_def)

lemma clipped_4: "\<exists>a b c d. clipped lv quad = [a, b, c, d]"
  by (simp add: clipped_def fromProtocolQuad_def intersectQuadWithViewport_def)

lemma middlePoint_clipped: "middlePoint (clipped lv quad) = centroid (clipped lv quad)"
proof -
  obtain a b c d where "clipped lv quad = [a, b, c, d]" using clipped_4 by blast
  then show ?thesis by (simp add: middlePoint_4)
qed

lemma clickablePointOf_filter:
  "clickablePointOf (Some rquads) lv =
     (case filter (\<lambda>quad. computeQuadArea (clipped lv quad) > 1) rquads of
        [] \<Rightarrow> Inl (Error ''Node is either not visible or not an HTMLElement'')
      | quad # _ \<Rightarrow> Inr (centroid (clipped lv quad)))"
proof -
  have "filter (\<lambda>quad. computeQuadArea quad > 1)
          (map (\<lambda>quad. intersectQuadWithViewport quad (clientWidth lv) (clientHeight lv))
             (map fromProtocolQuad rquads))
        = map (clipped lv) (filter (\<lambda>quad. computeQuadArea (clipped lv quad) > 1) rquads)"
    by (simp add: filter_map comp_def clipped_def)
  then show ?thesis
    by (cases "filter (\<lambda>quad. computeQuadArea (clipped lv quad) > 1) rquads")
       (auto simp: clickablePointOf_def Let_def middlePoint_clipped)
qed

text \<open>
  Claim C3. The clickable point skips every quad whose area after clipping to the
  viewport is at most 1 and is the mean of the four corners of the first clipped quad,
  in the order the browser reported them, whose area exceeds 1; in particular, of two
  quads with the first of area at most 1 and the second of area above 1, it is the mean
  of the corners of the second; when no quad has area above 1, or the quads could not be
  fetched, it fails with the visibility error. The method \<^verbatim>\<open>_clickablePoint\<close> returns
  what this computation gives on the answers to its two requests.
\<close>

theorem clickablePoint_first_surviving:
  "((\<forall>quad \<in> set small. computeQuadArea (clipped lv quad) \<le> 1) \<and> computeQuadArea (clipped lv big) > 1
      \<longrightarrow> clickablePointOf (Some (small @ big # others)) lv = Inr (centroid (clipped lv big)))
   \<and> (computeQuadArea (clipped lv first) \<le> 1 \<and> computeQuadArea (clipped lv second) > 1
      \<longrightarrow> clickablePointOf (Some [first, second]) lv = Inr (centroid (clipped lv second)))
   \<and> ((\<forall>quad \<in> set small. computeQuadArea (clipped lv quad) \<le> 1)
      \<longrightarrow> clickablePointOf (Some small) lv = Inl (Error ''Node is either not visible or not an HTMLElement''))
   \<and> clickablePointOf None lv = Inl (Error ''Node is either not visible or not an HTMLElement'')
   \<and> clickablePoint env tr =
       (case send_getLayoutMetrics env (tr @ [GetContentQuads]) of
          Inl e \<Rightarrow> Inl e
        | Inr metrics \<Rightarrow>
            clickablePointOf (case send_getContentQuads env tr of Inl e \<Rightarrow> None | Inr quads \<Rightarrow> Some quads)
              metrics,
        tr @ [GetContentQuads, GetLayoutMetrics])"
proof (intro conjI impI)
  assume "(\<forall>quad \<in> set small. computeQuadArea (clipped lv quad) \<le> 1) \<and> computeQuadArea (clipped lv big) > 1"
  then have "filter (\<lambda>quad. computeQuadArea (clipped lv quad) > 1) (small @ big # others)
             = big # filter (\<lambda>quad. computeQuadArea (clipped lv quad) > 1) others"
    by (auto simp: filter_empty_conv not_less)
  then show "clickablePointOf (Some (small @ big # others)) lv = Inr (centroid (clipped lv big))"
    by (simp add: clickablePointOf_filter)
next
  assume "computeQuadArea (clipped lv first) \<le> 1 \<and> computeQuadArea (clipped lv second) > 1"
  then show "clickablePointOf (Some [first, second]) lv = Inr (centroid (clipped lv second))"
    by (simp add: clickablePointOf_filter)
next
  assume "\<forall>quad \<in> set small. computeQuadArea (clipped lv quad) \<le> 1"
  then have "filter (\<lambda>quad. computeQuadArea (clipped lv quad) > 1) small = []"
    by (auto simp: filter_empty_conv not_less)
  then show "clickablePointOf (Some small) lv = Inl (Error ''Node is either not visible or not an HTMLElement'')"
    by (simp add: clickablePointOf_filter)
next
  show "clickablePointOf None lv = Inl (Error ''Node is either not visible or not an HTMLElement'')"
    by (simp add: clickablePointOf_def)
next
  show "clickablePoint env tr =
       (case send_getLayoutMetrics env (tr @ [GetContentQuads]) of
          Inl e \<Rightarrow> Inl e
        | Inr metrics \<Rightarrow>
            clickablePointOf (case send_getContentQuads env tr of Inl e \<Rightarrow> None | Inr quads \<Rightarrow> Some quads)
              metrics,
        tr @ [GetContentQuads, GetLayoutMetrics])"
    by (simp add: clickablePoint_def andThen_def orUndefined_def request_def throws_def returns_def
          split: sum.splits)
qed

lemma sliver_area: "computeQuadArea (clipped viewport800x600 sliver) = 1"
  by (simp add: clipped_def sliver_def viewport800x600_def fromProtocolQuad_def
        intersectQuadWithViewport_def area_4 directedArea_def roundDouble_def exponentOf_def
        log2floor.simps roundHalfEven_def Let_def)

lemma button_area: "computeQuadArea (clipped viewport800x600 button) = 200"
  by (simp add: clipped_def button_def viewport800x600_def fromProtocolQuad_def
        intersectQuadWithViewport_def area_4 directedArea_def roundDouble_def exponentOf_def
        log2floor.simps roundHalfEven_def Let_def)

lemma button_centroid: "centroid (clipped viewport800x600 button) = \<lparr>px = 795, py = 20\<rparr>"
  by (simp add: clipped_def button_def viewport800x600_def fromProtocolQuad_def
        intersectQuadWithViewport_def centroid_def)

text \<open>The theorem at the one-pixel quad followed by the 20 by 20 quad.\<close>

theorem clickablePoint_first_surviving_witness:
  "computeQuadArea (clipped viewport800x600 sliver) \<le> 1
   \<and> computeQuadArea (clipped viewport800x600 button) > 1
   \<and> clickablePointOf (Some [sliver, button]) viewport800x600 = Inr \<lparr>px = 795, py = 20\<rparr>
   \<and> clickablePointOf (Some ([sliver] @ button # [sliver])) viewport800x600 = Inr \<lparr>px = 795, py = 20\<rparr>
   \<and> clickablePointOf (Some [sliver]) viewport800x600 = Inl (Error ''Node is either not visible or not an HTMLElement'')"
proof -
  have s: "computeQuadArea (clipped viewport800x600 sliver) \<le> 1"
    by (simp add: sliver_area)
  have b: "computeQuadArea (clipped viewport800x600 button) > 1"
    by (simp add: button_area)
  have c: "centroid (clipped viewport800x600 button) = \<lparr>px = 795, py = 20\<rparr>"
    by (rule button_centroid)
  show ?thesis
    using s b c
      clickablePoint_first_surviving[of "[sliver]" viewport800x600 button "[sliver]" sliver button]
    by simp
qed

subsection \<open>A relative point in the viewport\<close>

lemma min4_Min: "min4 a b c d = Min {a, b, c, d}"
  by (simp add: min4_def min.commute min.left_commute)

text \<open>
  Claim C8. The point that \<^verbatim>\<open>_viewportPointAndScroll\<close> computes is the corner of the
  padding quad with the least x and the least y, plus the relative point, or the
  relative point itself without a box model; both scroll deltas are 0 whenever that point
  lies in \<open>[1, clientWidth - 1] \<times> [1, clientHeight - 1]\<close>; with the least corner at
  \<open>(500, 500)\<close>, the relative point \<open>(5, 5)\<close> and an 800 by 600 viewport the result is the
  point \<open>(505, 505)\<close> with scroll deltas \<open>(0, 0)\<close>. The method returns what this
  computation gives on the answers to its two requests.
\<close>

theorem viewportPointAndScroll_inside:
  "ps_point (viewportPointAndScrollOf (Some m) relativePoint lv)
     = \<lparr>px = px (minCorner (padding m)) + px relativePoint, py = py (minCorner (padding m)) + py relativePoint\<rparr>
   \<and> ps_point (viewportPointAndScrollOf None relativePoint lv) = relativePoint
   \<and> (1 \<le> px (ps_point (viewportPointAndScrollOf model relativePoint lv))
      \<and> px (ps_point (viewportPointAndScrollOf model relativePoint lv)) \<le> clientWidth lv - 1
      \<and> 1 \<le> py (ps_point (viewportPointAndScrollOf model relativePoint lv))
      \<and> py (ps_point (viewportPointAndScrollOf model relativePoint lv)) \<le> clientHeight lv - 1
      \<longrightarrow> ps_scrollX (viewportPointAndScrollOf model relativePoint lv) = 0
        \<and> ps_scrollY (viewportPointAndScrollOf model relativePoint lv) = 0)
   \<and> (px (minCorner (padding m)) = 500 \<and> py (minCorner (padding m)) = 500
      \<and> clientWidth lv = 800 \<and> clientHeight lv = 600
      \<longrightarrow> viewportPointAndScrollOf (Some m) \<lparr>px = 5, py = 5\<rparr> lv
          = \<lparr>ps_point = \<lparr>px = 505, py = 505\<rparr>, ps_scrollX = 0, ps_scrollY = 0\<rparr>)
   \<and> viewportPointAndScroll env relativePoint tr =
       (case send_getLayoutMetrics env (tr @ [GetBoxModel]) of
          Inl e \<Rightarrow> Inl e
        | Inr metrics \<Rightarrow>
            Inr (viewportPointAndScrollOf (case send_getBoxModel env tr of Inl e \<Rightarrow> None | Inr b \<Rightarrow> Some b)
                   relativePoint metrics),
        tr @ [GetBoxModel, GetLayoutMetrics])"
proof (intro conjI impI)
  show "ps_point (viewportPointAndScrollOf (Some m) relativePoint lv)
     = \<lparr>px = px (minCorner (padding m)) + px relativePoint, py = py (minCorner (padding m)) + py relativePoint\<rparr>"
    by (simp add: viewportPointAndScrollOf_def Let_def minCorner_def min4_Min)
next
  show "ps_point (viewportPointAndScrollOf None relativePoint lv) = relativePoint"
    by (simp add: viewportPointAndScrollOf_def)
next
  assume "1 \<le> px (ps_point (viewportPointAndScrollOf model relativePoint lv))
      \<and> px (ps_point (viewportPointAndScrollOf model relativePoint lv)) \<le> clientWidth lv - 1
      \<and> 1 \<le> py (ps_point (viewportPointAndScrollOf model relativePoint lv))
      \<and> py (ps_point (viewportPointAndScrollOf model relativePoint lv)) \<le> clientHeight lv - 1"
  then show "ps_scrollX (viewportPointAndScrollOf model relativePoint lv) = 0"
    by (simp add: viewportPointAndScrollOf_def Let_def)
next
  assume "1 \<le> px (ps_point (viewportPointAndScrollOf model relativePoint lv))
      \<and> px (ps_point (viewportPointAndScrollOf model relativePoint lv)) \<le> clientWidth lv - 1
      \<and> 1 \<le> py (ps_point (viewportPointAndScrollOf model relativePoint lv))
      \<and> py (ps_point (viewportPointAndScrollOf model relativePoint lv)) \<le> clientHeight lv - 1"
  then show "ps_scrollY (viewportPointAndScrollOf model relativePoint lv) = 0"
    by (simp add: viewportPointAndScrollOf_def Let_def)
next
  assume "px (minCorner (padding m)) = 500 \<and> py (minCorner (padding m)) = 500
      \<and> clientWidth lv = 800 \<and> clientHeight lv = 600"
  then show "viewportPointAndScrollOf (Some m) \<lparr>px = 5, py = 5\<rparr> lv
          = \<lparr>ps_point = \<lparr>px = 505, py = 505\<rparr>, ps_scrollX = 0, ps_scrollY = 0\<rparr>"
    by (simp add: viewportPointAndScrollOf_def Let_def minCorner_def min4_Min)
next
  show "viewportPointAndScroll env relativePoint tr =
       (case send_getLayoutMetrics env (tr @ [GetBoxModel]) of
          Inl e \<Rightarrow> Inl e
        | Inr metrics \<Rightarrow>
            Inr (viewportPointAndScrollOf (case send_getBoxModel env tr of Inl e \<Rightarrow> None | Inr b \<Rightarrow> Some b)
                   relativePoint metrics),
        tr @ [GetBoxModel, GetLayoutMetrics])"
    by (simp add: viewportPointAndScroll_def getBoxModel_def andThen_def orUndefined_def request_def
          returns_def split: sum.splits)
qed

text \<open>The theorem at a concrete box model, and without one.\<close>

theorem viewportPointAndScroll_inside_witness:
  "minCorner (padding farBox) = \<lparr>px = 500, py = 500\<rparr>
   \<and> viewportPointAndScrollOf (Some farBox) \<lparr>px = 5, py = 5\<rparr> viewport800x600
       = \<lparr>ps_point = \<lparr>px = 505, py = 505\<rparr>, ps_scrollX = 0, ps_scrollY = 0\<rparr>
   \<and> viewportPointAndScrollOf None \<lparr>px = 5, py = 5\<rparr> viewport800x600
       = \<lparr>ps_point = \<lparr>px = 5, py = 5\<rparr>, ps_scrollX = 0, ps_scrollY = 0\<rparr>"
proof -
  have m: "minCorner (padding farBox) = \<lparr>px = 500, py = 500\<rparr>"
    by (simp add: minCorner_def farBox_def)
  have v: "clientWidth viewport800x600 = 800 \<and> clientHeight viewport800x600 = 600"
    by (simp add: viewport800x600_def)
  have p: "ps_point (viewportPointAndScrollOf None \<lparr>px = 5, py = 5\<rparr> viewport800x600) = \<lparr>px = 5, py = 5\<rparr>"
    using viewportPointAndScroll_inside[of farBox "\<lparr>px = 5, py = 5\<rparr>" viewport800x600 None] by simp
  have "ps_scrollX (viewportPointAndScrollOf None \<lparr>px = 5, py = 5\<rparr> viewport800x600) = 0
        \<and> ps_scrollY (viewportPointAndScrollOf None \<lparr>px = 5, py = 5\<rparr> viewport800x600) = 0"
    using viewportPointAndScroll_inside[of farBox "\<lparr>px = 5, py = 5\<rparr>" viewport800x600 None] p v by simp
  then have n: "viewportPointAndScrollOf None \<lparr>px = 5, py = 5\<rparr> viewport800x600
       = \<lparr>ps_point = \<lparr>px = 5, py = 5\<rparr>, ps_scrollX = 0, ps_scrollY = 0\<rparr>"
    using p by (cases "viewportPointAndScrollOf None \<lparr>px = 5, py = 5\<rparr> viewport800x600") simp
  show ?thesis
    using m v n viewportPointAndScroll_inside[of farBox "\<lparr>px = 5, py = 5\<rparr>" viewport800x600 None]
    by simp
qed

subsection \<open>Traces of the element handle methods\<close>

lemma andThen_cases:
  assumes "andThen m f tr = (r, tr')"
  obtains (thrown) e where "m tr = (Inl e, tr')" and "r = Inl e"
  | (returned) v t where "m tr = (Inr v, t)" and "f v t = (r, tr')"
  using assms by (auto simp: andThen_def split: prod.splits sum.splits)

lemma request_run: "request ev answer tr = (r, tr') \<Longrightarrow> tr' = tr @ [ev] \<and> answer tr = r"
  by (auto simp: request_def)

lemma scrollIntoViewIfNeeded_run:
  "scrollIntoViewIfNeeded env tr = (r, tr') \<Longrightarrow> tr' = tr @ [scrollEvent env]"
  by (auto simp: scrollIntoViewIfNeeded_def scrollEvent_def andThen_def request_def throws_def returns_def
           split: sum.splits if_splits)

lemma boundingBox_run:
  "boundingBox env tr = (r, tr') \<Longrightarrow> tr' = tr @ [GetBoxModel] \<and> (\<exists>b. r = Inr b)"
  by (auto simp: boundingBox_def getBoxModel_def andThen_def orUndefined_def request_def returns_def
           split: sum.splits)

lemma clickablePoint_run:
  "clickablePoint env tr = (r, tr') \<Longrightarrow> tr' = tr @ [GetContentQuads, GetLayoutMetrics]"
  by (auto simp: clickablePoint_def andThen_def orUndefined_def request_def throws_def returns_def
           split: sum.splits if_splits)

lemma modifiers_run:
  assumes "(case ms of
          Some m \<Rightarrow> andThen (request (EnsureModifiers m) (keyboard_ensureModifiers env m)) (\<lambda>restore. returns (Some restore))
        | None \<Rightarrow> returns None) tr = (r, tr')"
  shows "\<exists>evs. tr' = tr @ evs \<and> (\<forall>ev \<in> set evs. \<exists>m. ev = EnsureModifiers m)"
  using assms
  by (auto simp: andThen_def request_def returns_def split: option.splits sum.splits)

lemma action_run:
  assumes "andThen (request (PointerAction pt) answer) (\<lambda>_.
       case restoreModifiers of
         Some restore \<Rightarrow>
           andThen (request (EnsureModifiers restore) (keyboard_ensureModifiers env restore))
             (\<lambda>_. returns ())
       | None \<Rightarrow> returns ()) tr = (r, tr')"
  shows "\<exists>evs. tr' = tr @ evs \<and> (\<forall>ev \<in> set evs. (\<exists>m. ev = EnsureModifiers m) \<or> ev = PointerAction pt)"
  using assms
  by (auto simp: andThen_def request_def returns_def split: option.splits sum.splits)

subsection \<open>Pointer actions without a relative point\<close>

lemma performPointerAction_default_run:
  assumes run: "performPointerAction env action options tr = (r, tr')"
    and dflt: "(case options of None \<Rightarrow> None | Some opts \<Rightarrow> opt_relativePoint opts) = None"
  shows "(tr' = tr @ [scrollEvent env] \<and> fst (scrollIntoViewIfNeeded env tr) = r \<and> (\<exists>e. r = Inl e))
       \<or> (tr' = tr @ [scrollEvent env, scrollEvent env] \<and> (\<exists>e. r = Inl e)
            \<and> fst (scrollIntoViewIfNeeded env tr) = Inr ())
       \<or> (\<exists>evs. tr' = tr @ [scrollEvent env, scrollEvent env, GetContentQuads, GetLayoutMetrics] @ evs
            \<and> fst (scrollIntoViewIfNeeded env tr) = Inr ()
            \<and> (\<forall>ev \<in> set evs. (\<exists>m. ev = EnsureModifiers m) \<or> (\<exists>pt. ev = PointerAction pt)))"
proof -
  from run show ?thesis
    unfolding performPointerAction_def
  proof (cases rule: andThen_cases)
    case (thrown e)
    then show ?thesis using scrollIntoViewIfNeeded_run[OF thrown(1)] by simp
  next
    case (returned v t1)
    have t1: "t1 = tr @ [scrollEvent env]" using scrollIntoViewIfNeeded_run[OF returned(1)] .
    have ok: "fst (scrollIntoViewIfNeeded env tr) = Inr ()" using returned(1) by simp
    from returned(2) show ?thesis
    proof (cases rule: andThen_cases)
      case (thrown e)
      then have "andThen (scrollIntoViewIfNeeded env) (\<lambda>_. clickablePoint env) t1 = (Inl e, tr')"
        using dflt by simp
      then show ?thesis
      proof (cases rule: andThen_cases)
        case (thrown e')
        then show ?thesis using scrollIntoViewIfNeeded_run[OF thrown(1)] t1 ok \<open>r = Inl e\<close> by simp
      next
        case (returned v2 t2)
        have "t2 = t1 @ [scrollEvent env]" using scrollIntoViewIfNeeded_run[OF returned(1)] .
        moreover have "tr' = t2 @ [GetContentQuads, GetLayoutMetrics]" using clickablePoint_run[OF returned(2)] .
        ultimately show ?thesis using t1 ok by simp
      qed
    next
      case (returned pt t3)
      then have "andThen (scrollIntoViewIfNeeded env) (\<lambda>_. clickablePoint env) t1 = (Inr pt, t3)"
        using dflt by simp
      then have t3: "t3 = tr @ [scrollEvent env, scrollEvent env, GetContentQuads, GetLayoutMetrics]"
      proof (cases rule: andThen_cases)
        case (returned v2 t2)
        have "t2 = t1 @ [scrollEvent env]" using scrollIntoViewIfNeeded_run[OF returned(1)] .
        moreover have "t3 = t2 @ [GetContentQuads, GetLayoutMetrics]" using clickablePoint_run[OF returned(2)] .
        ultimately show ?thesis using t1 by simp
      qed simp
      from returned(2) show ?thesis
      proof (cases rule: andThen_cases)
        case (thrown e)
        from modifiers_run[OF thrown(1)] t3 ok show ?thesis by auto
      next
        case (returned rm t4)
        from modifiers_run[OF returned(1)] obtain evs1 where
          e1: "t4 = t3 @ evs1" "\<forall>ev \<in> set evs1. \<exists>m. ev = EnsureModifiers m" by blast
        from action_run[OF returned(2)] obtain evs2 where
          e2: "tr' = t4 @ evs2" "\<forall>ev \<in> set evs2. (\<exists>m. ev = EnsureModifiers m) \<or> ev = PointerAction pt" by blast
        have "tr' = tr @ [scrollEvent env, scrollEvent env, GetContentQuads, GetLayoutMetrics] @ (evs1 @ evs2)"
          using e1 e2 t3 by simp
        moreover have "\<forall>ev \<in> set (evs1 @ evs2). (\<exists>m. ev = EnsureModifiers m) \<or> (\<exists>pt. ev = PointerAction pt)"
          using e1 e2 by auto
        ultimately show ?thesis using ok by blast
      qed
    qed
  qed
qed

text \<open>
  Claim C10. A pointer action without a \<^verbatim>\<open>relativePoint\<close> option starts with a
  scroll-into-view evaluation; when that one does not throw, a second one follows at
  once, and the action makes exactly these two. Whenever the content quads are requested
  for the clickable point, the requests before them are exactly the two scroll-into-view
  evaluations; and the caller's action runs only after both and after the two requests
  of the clickable point.
\<close>

theorem pointerAction_scrolls_twice:
  assumes "performPointerAction env action options tr = (r, tr')"
    and "(case options of None \<Rightarrow> None | Some opts \<Rightarrow> opt_relativePoint opts) = None"
  shows "\<exists>evs. tr' = tr @ evs
          \<and> take 1 evs = [scrollEvent env]
          \<and> (fst (scrollIntoViewIfNeeded env tr) = Inr () \<longrightarrow>
               take 2 evs = [scrollEvent env, scrollEvent env] \<and> length (filter isScrollIntoView evs) = 2)
          \<and> (GetContentQuads \<in> set evs \<longrightarrow>
               takeWhile (\<lambda>ev. ev \<noteq> GetContentQuads) evs = [scrollEvent env, scrollEvent env])
          \<and> ((\<exists>pt. PointerAction pt \<in> set evs) \<longrightarrow>
               take 4 evs = [scrollEvent env, scrollEvent env, GetContentQuads, GetLayoutMetrics])"
proof -
  from performPointerAction_default_run[OF assms]
  consider (a) "tr' = tr @ [scrollEvent env]" "fst (scrollIntoViewIfNeeded env tr) = r" "\<exists>e. r = Inl e"
    | (b) "tr' = tr @ [scrollEvent env, scrollEvent env]"
    | (c) evs where "tr' = tr @ [scrollEvent env, scrollEvent env, GetContentQuads, GetLayoutMetrics] @ evs"
          "\<forall>ev \<in> set evs. (\<exists>m. ev = EnsureModifiers m) \<or> (\<exists>pt. ev = PointerAction pt)"
    by blast
  then show ?thesis
  proof cases
    case a
    then show ?thesis by (intro exI[of _ "[scrollEvent env]"]) (auto simp: scrollEvent_def)
  next
    case b
    then show ?thesis by (intro exI[of _ "[scrollEvent env, scrollEvent env]"]) (auto simp: scrollEvent_def)
  next
    case c
    have "filter isScrollIntoView evs = []"
      using c(2) by (auto simp: filter_empty_conv)
    then show ?thesis
      using c(1)
      by (intro exI[of _ "[scrollEvent env, scrollEvent env, GetContentQuads, GetLayoutMetrics] @ evs"])
         (auto simp: scrollEvent_def)
  qed
qed

lemma clickablePointOf_sample:
  "clickablePointOf (Some [sliver, button]) viewport800x600 = Inr \<lparr>px = 795, py = 20\<rparr>"
  by (simp add: clickablePointOf_filter sliver_area button_area button_centroid)

lemma performPointerAction_calm:
  "performPointerAction calmEnv (\<lambda>pt tr. Inr ()) None []
     = (Inr (), [EvalScrollIntoView True, EvalScrollIntoView True, GetContentQuads, GetLayoutMetrics,
                 PointerAction \<lparr>px = 795, py = 20\<rparr>])"
  by (simp add: performPointerAction_def scrollIntoViewIfNeeded_def clickablePoint_def andThen_def
        orUndefined_def request_def returns_def throws_def calmEnv_def clickablePointOf_sample)

text \<open>The theorem at a click, without options, in an environment where nothing fails.\<close>

theorem pointerAction_scrolls_twice_witness:
  "performPointerAction calmEnv (\<lambda>pt tr. Inr ()) None []
     = (Inr (), [EvalScrollIntoView True, EvalScrollIntoView True, GetContentQuads, GetLayoutMetrics,
                 PointerAction \<lparr>px = 795, py = 20\<rparr>])
   \<and> fst (scrollIntoViewIfNeeded calmEnv []) = Inr ()
   \<and> length (filter isScrollIntoView
        (snd (performPointerAction calmEnv (\<lambda>pt tr. Inr ()) None []))) = 2
   \<and> takeWhile (\<lambda>ev. ev \<noteq> GetContentQuads)
        (snd (performPointerAction calmEnv (\<lambda>pt tr. Inr ()) None []))
       = [scrollEvent calmEnv, scrollEvent calmEnv]"
proof -
  have d: "(case None :: pointer_action_options option of None \<Rightarrow> None | Some opts \<Rightarrow> opt_relativePoint opts) = None"
    by simp
  have s: "fst (scrollIntoViewIfNeeded calmEnv []) = Inr ()"
    by (simp add: scrollIntoViewIfNeeded_def andThen_def request_def returns_def calmEnv_def)
  from pointerAction_scrolls_twice[OF performPointerAction_calm d] s
  obtain evs where
    "[EvalScrollIntoView True, EvalScrollIntoView True, GetContentQuads, GetLayoutMetrics,
      PointerAction \<lparr>px = 795, py = 20\<rparr>] = [] @ evs"
    "length (filter isScrollIntoView evs) = 2"
    "GetContentQuads \<in> set evs \<longrightarrow>
       takeWhile (\<lambda>ev. ev \<noteq> GetContentQuads) evs = [scrollEvent calmEnv, scrollEvent calmEnv]"
    by blast
  then show ?thesis
    using performPointerAction_calm s by auto
qed

subsection \<open>The viewport around a screenshot\<close>

lemma screenshot_enlarging_run:
  assumes run: "screenshot env optionsClip tr = (r, tr')"
    and bb: "fst (boundingBox env tr) = Inr (Some bb)"
    and vp: "page_viewport env (tr @ [GetBoxModel]) = Some v"
    and ex: "box_width bb > viewport_width v \<or> box_height bb > viewport_height v"
  shows "(tr' = tr @ [GetBoxModel, SetViewport (enlargedViewport v bb)] \<and> (\<exists>e. r = Inl e))
       \<or> (tr' = tr @ [GetBoxModel, SetViewport (enlargedViewport v bb), scrollEvent env] \<and> (\<exists>e. r = Inl e))
       \<or> (tr' = tr @ [GetBoxModel, SetViewport (enlargedViewport v bb), scrollEvent env, GetBoxModel]
            \<and> (\<exists>e. r = Inl e))
       \<or> (tr' = tr @ [GetBoxModel, SetViewport (enlargedViewport v bb), scrollEvent env, GetBoxModel,
                      GetLayoutMetrics] \<and> (\<exists>e. r = Inl e))
       \<or> (\<exists>clip e. tr' = tr @ [GetBoxModel, SetViewport (enlargedViewport v bb), scrollEvent env, GetBoxModel,
                      GetLayoutMetrics, PageScreenshot clip]
            \<and> page_screenshot env clip (tr @ [GetBoxModel, SetViewport (enlargedViewport v bb), scrollEvent env,
                      GetBoxModel, GetLayoutMetrics]) = Inl e
            \<and> r = Inl e)
       \<or> (\<exists>clip imageData. tr' = tr @ [GetBoxModel, SetViewport (enlargedViewport v bb), scrollEvent env, GetBoxModel,
                      GetLayoutMetrics, PageScreenshot clip, SetViewport v]
            \<and> page_screenshot env clip (tr @ [GetBoxModel, SetViewport (enlargedViewport v bb), scrollEvent env,
                      GetBoxModel, GetLayoutMetrics]) = Inr imageData
            \<and> r = map_sum id (\<lambda>_. imageData)
                     (page_setViewport env v (tr @ [GetBoxModel, SetViewport (enlargedViewport v bb),
                        scrollEvent env, GetBoxModel, GetLayoutMetrics, PageScreenshot clip])))"
proof -
  have enl: "v\<lparr>viewport_width := max (viewport_width v) (of_int \<lceil>box_width bb\<rceil>),
       viewport_height := max (viewport_height v) (of_int \<lceil>box_height bb\<rceil>)\<rparr> = enlargedViewport v bb"
    by (simp add: enlargedViewport_def)
  have c: "(viewport_width v < box_width bb \<or> viewport_height v < box_height bb) = True"
    using ex by simp
  from run[unfolded screenshot_def] show ?thesis
  proof (cases rule: andThen_cases)
    case (thrown e)
    then show ?thesis using bb by simp
  next
    case (returned bbox t1)
    have bbox: "bbox = Some bb" using returned(1) bb by simp
    have t1: "t1 = tr @ [GetBoxModel]" using boundingBox_run[OF returned(1)] by simp
    have vp1: "page_viewport env t1 = Some v" using vp t1 by simp
    note r1 = returned(2)[unfolded bbox option.case Let_def vp1 option.case c if_True option.sel enl]
    from r1 show ?thesis
    proof (cases rule: andThen_cases)
      case (thrown e)
      then have "tr' = t1 @ [SetViewport (enlargedViewport v bb)]"
        by (auto simp: andThen_def request_def returns_def split: sum.splits)
      then show ?thesis using thrown t1 by simp
    next
      case (returned needs t2)
      then have t2: "t2 = t1 @ [SetViewport (enlargedViewport v bb)]" and needs: "needs = True"
        by (auto simp: andThen_def request_def returns_def split: sum.splits)
      from returned(2) show ?thesis
      proof (cases rule: andThen_cases)
        case (thrown e)
        then show ?thesis using scrollIntoViewIfNeeded_run[OF thrown(1)] t1 t2 by simp
      next
        case (returned u t3)
        have t3: "t3 = t2 @ [scrollEvent env]" using scrollIntoViewIfNeeded_run[OF returned(1)] .
        from returned(2) show ?thesis
        proof (cases rule: andThen_cases)
          case (thrown e)
          then show ?thesis using boundingBox_run[OF thrown(1)] by simp
        next
          case (returned bbox2 t4)
          have t4: "t4 = t3 @ [GetBoxModel]" using boundingBox_run[OF returned(1)] by simp
          show ?thesis
          proof (cases bbox2)
            case None
            then show ?thesis using returned(2) t1 t2 t3 t4 by (auto simp: throws_def)
          next
            case (Some bb2)
            show ?thesis
            proof (cases "box_width bb2 = 0 \<or> box_height bb2 = 0")
              case True
              have "r = Inl (Error ''Node has 0 width.'') \<or> r = Inl (Error ''Node has 0 height.'')" "tr' = t4"
                using True returned(2) Some by (auto simp: throws_def split: if_splits)
              then show ?thesis using t1 t2 t3 t4 by auto
            next
              case False
              then have w: "(box_width bb2 = 0) = False" and h: "(box_height bb2 = 0) = False"
                by simp_all
              note r2 = returned(2)[unfolded Some option.case w h if_False needs if_True]
              from r2 show ?thesis
              proof (cases rule: andThen_cases)
                case (thrown e)
                then show ?thesis using request_run[OF thrown(1)] t1 t2 t3 t4 by simp
              next
                case (returned lv t5)
                have t5: "t5 = t4 @ [GetLayoutMetrics]" using request_run[OF returned(1)] by simp
                define clip where "clip = (case optionsClip of
                     None \<Rightarrow> bb2\<lparr>box_x := box_x bb2 + pageX lv, box_y := box_y bb2 + pageY lv\<rparr>
                   | Some c \<Rightarrow> c)"
                note r3 = returned(2)[unfolded Let_def clip_def[symmetric]]
                from r3 show ?thesis
                proof (cases rule: andThen_cases)
                  case (thrown e)
                  have "tr' = t5 @ [PageScreenshot clip]" "page_screenshot env clip t5 = Inl e"
                    using request_run[OF thrown(1)] by simp_all
                  then show ?thesis using thrown(2) t1 t2 t3 t4 t5 by auto
                next
                  case (returned imageData t6)
                  have t6: "t6 = t5 @ [PageScreenshot clip]" "page_screenshot env clip t5 = Inr imageData"
                    using request_run[OF returned(1)] by simp_all
                  from returned(2) have "tr' = t6 @ [SetViewport v]"
                    "r = map_sum id (\<lambda>_. imageData) (page_setViewport env v t6)"
                    by (auto simp: andThen_def request_def returns_def split: sum.splits)
                  then show ?thesis using t1 t2 t3 t4 t5 t6 by auto
                qed
              qed
            qed
          qed
        qed
      qed
    qed
  qed
qed

lemma boundingBoxOf_bannerBox: "boundingBoxOf (Some bannerBox) = Some bannerBounding"
  by (simp add: boundingBoxOf_def bannerBox_def bannerBounding_def min4_def max4_def Let_def)

lemma enlarged_page: "enlargedViewport pageViewport bannerBounding = widenedViewport"
  by (simp add: enlargedViewport_def pageViewport_def bannerBounding_def widenedViewport_def)

lemma screenshot_calm:
  "screenshot calmEnv None [] =
     (Inr ''image'',
      [GetBoxModel, SetViewport widenedViewport, EvalScrollIntoView True, GetBoxModel, GetLayoutMetrics,
       PageScreenshot bannerBounding, SetViewport pageViewport])"
  by (simp add: screenshot_def boundingBox_def getBoxModel_def scrollIntoViewIfNeeded_def
        andThen_def orUndefined_def request_def returns_def throws_def calmEnv_def
        boundingBoxOf_bannerBox enlarged_page[unfolded enlargedViewport_def] viewport800x600_def Let_def
        bannerBounding_def pageViewport_def widenedViewport_def)

lemma enlargedViewport_differs:
  assumes "box_width bb > viewport_width v \<or> box_height bb > viewport_height v"
  shows "enlargedViewport v bb \<noteq> v"
proof
  assume eq: "enlargedViewport v bb = v"
  have "viewport_width (enlargedViewport v bb) = max (viewport_width v) (of_int \<lceil>box_width bb\<rceil>)"
    by (simp add: enlargedViewport_def)
  then have "max (viewport_width v) (of_int \<lceil>box_width bb\<rceil>) = viewport_width v"
    using eq by simp
  then have "of_int \<lceil>box_width bb\<rceil> \<le> viewport_width v"
    by (simp add: max_def split: if_splits)
  then have w: "box_width bb \<le> viewport_width v"
    using le_of_int_ceiling[of "box_width bb"] by linarith
  have "viewport_height (enlargedViewport v bb) = max (viewport_height v) (of_int \<lceil>box_height bb\<rceil>)"
    by (simp add: enlargedViewport_def)
  then have "max (viewport_height v) (of_int \<lceil>box_height bb\<rceil>) = viewport_height v"
    using eq by simp
  then have "of_int \<lceil>box_height bb\<rceil> \<le> viewport_height v"
    by (simp add: max_def split: if_splits)
  then have h: "box_height bb \<le> viewport_height v"
    using le_of_int_ceiling[of "box_height bb"] by linarith
  from w h assms show False by linarith
qed

text \<open>
  Claim C2, as the code has it. When the bounding box of the element exceeds the
  viewport, \<^verbatim>\<open>screenshot\<close> first sets an enlarged viewport, which differs from the
  original. If the capture is then requested and succeeds, the next and last request sets
  the original viewport again. If the capture throws, \<^verbatim>\<open>screenshot\<close> throws the same
  error and issues no further request: the original viewport is restored on the success
  path only.
\<close>

theorem screenshot_restores_after_capture:
  assumes "screenshot env optionsClip tr = (r, tr')"
    and "fst (boundingBox env tr) = Inr (Some bb)"
    and "page_viewport env (tr @ [GetBoxModel]) = Some v"
    and "box_width bb > viewport_width v \<or> box_height bb > viewport_height v"
  shows "\<exists>evs. tr' = tr @ [GetBoxModel, SetViewport (enlargedViewport v bb)] @ evs
           \<and> enlargedViewport v bb \<noteq> v
           \<and> (\<forall>pre clip post. evs = pre @ PageScreenshot clip # post \<longrightarrow>
                (case page_screenshot env clip (tr @ [GetBoxModel, SetViewport (enlargedViewport v bb)] @ pre) of
                   Inl e \<Rightarrow> r = Inl e \<and> post = []
                 | Inr imageData \<Rightarrow> post = [SetViewport v]))"
proof -
  note d = enlargedViewport_differs[OF assms(4)]
  let ?t2 = "tr @ [GetBoxModel, SetViewport (enlargedViewport v bb)]"
  let ?S = "scrollEvent env"
  from screenshot_enlarging_run[OF assms]
  consider (a) "tr' = ?t2 @ []"
    | (b) "tr' = ?t2 @ [?S]"
    | (c) "tr' = ?t2 @ [?S, GetBoxModel]"
    | (d) "tr' = ?t2 @ [?S, GetBoxModel, GetLayoutMetrics]"
    | (e) clip e where "tr' = ?t2 @ [?S, GetBoxModel, GetLayoutMetrics, PageScreenshot clip]"
        "page_screenshot env clip (?t2 @ [?S, GetBoxModel, GetLayoutMetrics]) = Inl e" "r = Inl e"
    | (f) clip imageData where "tr' = ?t2 @ [?S, GetBoxModel, GetLayoutMetrics, PageScreenshot clip, SetViewport v]"
        "page_screenshot env clip (?t2 @ [?S, GetBoxModel, GetLayoutMetrics]) = Inr imageData"
    by auto
  then show ?thesis
  proof cases
    case a
    then show ?thesis using d by (intro exI[of _ "[]"]) simp
  next
    case b
    then show ?thesis using d
      by (intro exI[of _ "[?S]"]) (auto simp: scrollEvent_def Cons_eq_append_conv)
  next
    case c
    then show ?thesis using d
      by (intro exI[of _ "[?S, GetBoxModel]"]) (auto simp: scrollEvent_def Cons_eq_append_conv)
  next
    case d
    then show ?thesis using \<open>enlargedViewport v bb \<noteq> v\<close>
      by (intro exI[of _ "[?S, GetBoxModel, GetLayoutMetrics]"]) (auto simp: scrollEvent_def Cons_eq_append_conv)
  next
    case e
    then show ?thesis using d
      by (intro exI[of _ "[?S, GetBoxModel, GetLayoutMetrics, PageScreenshot clip]"])
         (auto simp: scrollEvent_def Cons_eq_append_conv)
  next
    case f
    then show ?thesis using d
      by (intro exI[of _ "[?S, GetBoxModel, GetLayoutMetrics, PageScreenshot clip, SetViewport v]"])
         (auto simp: scrollEvent_def Cons_eq_append_conv)
  qed
qed

text \<open>The theorem at the banner in the 800 by 600 viewport, with a capture that succeeds.\<close>

theorem screenshot_restores_after_capture_witness:
  "screenshot calmEnv None [] =
     (Inr ''image'',
      [GetBoxModel, SetViewport widenedViewport, EvalScrollIntoView True, GetBoxModel, GetLayoutMetrics,
       PageScreenshot bannerBounding, SetViewport pageViewport])
   \<and> fst (boundingBox calmEnv []) = Inr (Some bannerBounding)
   \<and> page_viewport calmEnv ([] @ [GetBoxModel]) = Some pageViewport
   \<and> box_width bannerBounding > viewport_width pageViewport
   \<and> enlargedViewport pageViewport bannerBounding \<noteq> pageViewport
   \<and> page_screenshot calmEnv bannerBounding
        [GetBoxModel, SetViewport widenedViewport, EvalScrollIntoView True, GetBoxModel, GetLayoutMetrics]
       = Inr ''image''"
proof -
  have b: "fst (boundingBox calmEnv []) = Inr (Some bannerBounding)"
    by (simp add: boundingBox_def getBoxModel_def andThen_def orUndefined_def request_def returns_def
          calmEnv_def boundingBoxOf_bannerBox)
  have v: "page_viewport calmEnv ([] @ [GetBoxModel]) = Some pageViewport"
    by (simp add: calmEnv_def)
  have x: "box_width bannerBounding > viewport_width pageViewport \<or> box_height bannerBounding > viewport_height pageViewport"
    by (simp add: bannerBounding_def pageViewport_def)
  have p: "page_screenshot calmEnv bannerBounding
        [GetBoxModel, SetViewport widenedViewport, EvalScrollIntoView True, GetBoxModel, GetLayoutMetrics]
       = Inr ''image''"
    by (simp add: calmEnv_def)
  from screenshot_restores_after_capture[OF screenshot_calm b v x]
  have "enlargedViewport pageViewport bannerBounding \<noteq> pageViewport" by blast
  then show ?thesis
    using screenshot_calm b v p by (simp add: bannerBounding_def pageViewport_def)
qed

text \<open>
  The claim as stated fails: with the same box and viewport and a capture that is
  rejected, the call ends with the capture's error, the last viewport set is the widened
  one, and no request restores the original.
\<close>

theorem screenshot_capture_fails_counterexample:
  "screenshot captureFailsEnv None [] =
     (Inl (Error ''Protocol error (Page.captureScreenshot): Target closed.''),
      [GetBoxModel, SetViewport widenedViewport, EvalScrollIntoView True, GetBoxModel, GetLayoutMetrics,
       PageScreenshot bannerBounding])
   \<and> page_viewport captureFailsEnv [GetBoxModel] = Some pageViewport
   \<and> widenedViewport \<noteq> pageViewport"
  by (simp add: screenshot_def boundingBox_def getBoxModel_def scrollIntoViewIfNeeded_def
        andThen_def orUndefined_def request_def returns_def throws_def calmEnv_def captureFailsEnv_def
        boundingBoxOf_bannerBox enlarged_page[unfolded enlargedViewport_def] viewport800x600_def Let_def
        bannerBounding_def pageViewport_def widenedViewport_def)

end
